theory Spec2Isabelle
  imports Main "HOL-Library.Sublist"
begin

section \<open>Python values used by \<open>app/groq_stream.py\<close>\<close>

text \<open>
  A Python \<open>str\<close> is a sequence of Unicode code points and \<open>len\<close> counts code points,
  so a string of the program is a list of code points. \<open>lit\<close> embeds an ASCII literal of
  the source; the accented letters of the Spanish literals are written as their code
  points.
\<close>

type_synonym pystr = "nat list"

definition lit :: "string \<Rightarrow> pystr" where
  "lit s = map of_char s"

text \<open>\<open>str(n)\<close> for an integer: decimal digits, a minus sign for negatives.\<close>

fun digits :: "nat \<Rightarrow> pystr" where
  "digits n = (if n < 10 then [48 + n] else digits (n div 10) @ [48 + n mod 10])"

declare digits.simps [simp del]

definition str_int :: "int \<Rightarrow> pystr" where
  "str_int i = (if i < 0 then 45 # digits (nat (- i)) else digits (nat i))"

text \<open>
  An f-string field \<open>{x}\<close> whose value is a \<open>str\<close> or \<open>None\<close>: \<open>None\<close> is
  formatted as the text \<open>None\<close>. The same function is \<open>str(x)\<close> on such a value.
\<close>

definition fmt :: "pystr option \<Rightarrow> pystr" where
  "fmt v = (case v of None \<Rightarrow> lit ''None'' | Some s \<Rightarrow> s)"

text \<open>
  The idiom \<open>x or 'default'\<close> on a \<open>str\<close> or \<open>None\<close>: both \<open>None\<close> and the empty
  string are false.
\<close>

definition or_default :: "pystr option \<Rightarrow> pystr \<Rightarrow> pystr" where
  "or_default v d = (case v of None \<Rightarrow> d | Some s \<Rightarrow> if s = [] then d else s)"

text \<open>\<open>"\n".join(parts)\<close>.\<close>

fun join_nl :: "pystr list \<Rightarrow> pystr" where
  "join_nl [] = []"
| "join_nl [p] = p"
| "join_nl (p # q # ps) = p @ 10 # join_nl (q # ps)"

text \<open>
  \<open>str.isspace\<close> on one code point, and \<open>str.strip()\<close> with no argument, which removes
  the leading and the trailing run of such code points.
\<close>

definition isspace :: "nat \<Rightarrow> bool" where
  "isspace c \<longleftrightarrow>
     (9 \<le> c \<and> c \<le> 13) \<or> (28 \<le> c \<and> c \<le> 32) \<or> c = 133 \<or> c = 160 \<or> c = 5760 \<or>
     (8192 \<le> c \<and> c \<le> 8202) \<or> c = 8232 \<or> c = 8233 \<or> c = 8239 \<or> c = 8287 \<or> c = 12288"

definition strip :: "pystr \<Rightarrow> pystr" where
  "strip s = rev (dropWhile isspace (rev (dropWhile isspace s)))"

text \<open>\<open>s.split('/')[-1]\<close>: the part of \<open>s\<close> after its last slash (all of \<open>s\<close> if none).\<close>

definition split_last :: "pystr \<Rightarrow> pystr" where
  "split_last s = rev (takeWhile (\<lambda>c. c \<noteq> 47) (rev s))"

subsection \<open>Exceptions\<close>

text \<open>
  Every \<open>raise\<close> of the program is a value \<open>Inl e\<close>. Only the class of an exception is
  kept; its text reaches the log only, which is not modelled. \<open>SQLAlchemyError\<close> stands
  for whatever the persistence layer raises.
\<close>

datatype py_error = AttributeError | KeyError | SQLAlchemyError

definition bind :: "py_error + 'a \<Rightarrow> ('a \<Rightarrow> py_error + 'b) \<Rightarrow> py_error + 'b" where
  "bind m f = (case m of Inl e \<Rightarrow> Inl e | Inr v \<Rightarrow> f v)"

text \<open>\<open>try: m except Exception as e: h e\<close>.\<close>

definition try_except :: "py_error + 'a \<Rightarrow> (py_error \<Rightarrow> py_error + 'a) \<Rightarrow> py_error + 'a" where
  "try_except m h = (case m of Inl e \<Rightarrow> h e | Inr v \<Rightarrow> Inr v)"

text \<open>
  An attribute of an object handed in by a caller is present with a value or missing:
  reading a missing attribute raises \<open>AttributeError\<close>, \<open>hasattr\<close> is false on it, and
  \<open>getattr\<close> with a default returns the default.
\<close>

datatype 'a attr = NoAttr | Attr 'a

definition read_attr :: "'a attr \<Rightarrow> py_error + 'a" where
  "read_attr a = (case a of NoAttr \<Rightarrow> Inl AttributeError | Attr v \<Rightarrow> Inr v)"

definition getattr_default :: "'a attr \<Rightarrow> 'a \<Rightarrow> 'a" where
  "getattr_default a d = (case a of NoAttr \<Rightarrow> d | Attr v \<Rightarrow> v)"

section \<open>The user context\<close>

text \<open>
  Modelled from the spec: the role enumeration \<open>RolUsuario\<close> is declared in
  \<open>app/models.py\<close>, which is not part of the sources; the spec gives it the two members
  teacher and student, and the source names \<open>PROFESOR\<close>.
\<close>

datatype RolUsuario = PROFESOR | ALUMNO

record date =
  year :: int
  month :: int
  day :: int

record institucion =
  inst_nombre :: "pystr option attr"
  valores_institucionales :: "pystr option attr"
  metodologia_pedagogica :: "pystr option attr"
  configuracion_ia :: "pystr option attr"

record curso =
  curso_id :: int
  curso_nombre :: "pystr option"

text \<open>
  The \<open>usuario\<close> argument. \<open>u_get_institucion\<close> is the method \<open>get_institucion\<close>: missing,
  or present and, when called, raising or returning an institution or \<open>None\<close>.
\<close>

record usuario =
  u_id :: "int attr"
  u_nombre :: "pystr option attr"
  u_apellido :: "pystr option attr"
  u_rol :: "RolUsuario option attr"
  u_fecha_nacimiento :: "date option attr"
  u_curso_id :: "int option attr"
  u_cursos :: "curso list attr"
  u_get_institucion :: "(py_error + institucion option) attr"

text \<open>\<open>usuario.rol == RolUsuario.PROFESOR\<close>; reading \<open>rol\<close> may raise.\<close>

definition es_profesor :: "usuario \<Rightarrow> py_error + bool" where
  "es_profesor u = bind (read_attr (u_rol u)) (\<lambda>r. Inr (r = Some PROFESOR))"

subsection \<open>\<open>_calculate_age\<close>\<close>

text \<open>\<open>(a, b) < (c, d)\<close> on Python tuples is lexicographic.\<close>

definition tuple_less :: "int \<times> int \<Rightarrow> int \<times> int \<Rightarrow> bool" where
  "tuple_less p q \<longleftrightarrow> fst p < fst q \<or> (fst p = fst q \<and> snd p < snd q)"

definition edad_por_rol :: "usuario \<Rightarrow> py_error + int" where
  "edad_por_rol u = bind (es_profesor u) (\<lambda>p. Inr (if p then 30 else 16))"

text \<open>
  \<open>hoy\<close> is the value of \<open>date.today()\<close>. A date object is always true, so the first
  branch is taken exactly when the attribute is present and not \<open>None\<close>. The handler
  reads \<open>usuario.rol\<close> again.
\<close>

definition calculate_age :: "date \<Rightarrow> usuario \<Rightarrow> py_error + int" where
  "calculate_age hoy u =
     try_except
       (case u_fecha_nacimiento u of
          Attr (Some fecha_nac) \<Rightarrow>
            (let edad = year hoy - year fecha_nac -
                   (if tuple_less (month hoy, day hoy) (month fecha_nac, day fecha_nac)
                    then 1 else 0)
             in Inr (max 0 (min edad 120)))
        | _ \<Rightarrow> edad_por_rol u)
       (\<lambda>e. edad_por_rol u)"

text \<open>
  The calendar age in the spec's words: the number of whole years between the birth
  date and today, that is the difference of the years, less one when this year's
  birthday (the birth month and day) has not yet occurred.
\<close>

definition birthday_occurred :: "date \<Rightarrow> date \<Rightarrow> bool" where
  "birthday_occurred hoy nac \<longleftrightarrow>
     month nac < month hoy \<or> (month nac = month hoy \<and> day nac \<le> day hoy)"

definition calendar_age :: "date \<Rightarrow> date \<Rightarrow> int" where
  "calendar_age hoy nac =
     (if birthday_occurred hoy nac then year hoy - year nac else year hoy - year nac - 1)"

text \<open>The order of dates, and the birthday of the year in which a person turns \<open>n\<close>.\<close>

definition date_le :: "date \<Rightarrow> date \<Rightarrow> bool" where
  "date_le a b \<longleftrightarrow>
     year a < year b \<or>
     (year a = year b \<and> (month a < month b \<or> (month a = month b \<and> day a \<le> day b)))"

definition nth_birthday :: "date \<Rightarrow> int \<Rightarrow> date" where
  "nth_birthday nac n = nac\<lparr>year := year nac + n\<rparr>"

definition clamp_age :: "int \<Rightarrow> int" where
  "clamp_age a = (if a < 0 then 0 else if 120 < a then 120 else a)"

subsection \<open>Rows returned by the persistence layer\<close>

text \<open>
  Rows come out of ORM queries, so every mapped attribute is present on them
  (\<open>hasattr\<close> is true); a column or a relation may still be \<open>None\<close>.
\<close>

record materia =
  materia_nombre :: "pystr option"
  materia_descripcion :: "pystr option"
  materia_curso :: "curso option"

record archivo =
  archivo_path :: "pystr option"
  nombre_tema :: "pystr option"
  notas_adicionales :: "pystr option"
  instrucciones_ensenanza :: "pystr option"
  texto_extraido :: "pystr option"
  archivo_materia :: "materia option"

text \<open>
  What the prompt construction reads from outside: the process environment, the
  clock, the \<open>value\<close> of each role (declared in \<open>app/models.py\<close>, hence a parameter),
  and the result of each query, which is a list of rows or an exception:
  \<^item> \<open>archivos_profesor\<close>: the ten most recent files of the subjects taught by the
    teacher with the given id;
  \<^item> \<open>archivos_curso\<close>: the ten most recent files of the course with the given id;
  \<^item> \<open>materias_profesor\<close>: the (subject, course) pairs taught by the given teacher;
  \<^item> \<open>materias_curso\<close>: the subjects of the given course.
\<close>

record entorno =
  getenv :: "string \<Rightarrow> pystr option"
  today :: date
  rol_value :: "RolUsuario \<Rightarrow> pystr"
  archivos_profesor :: "int \<Rightarrow> py_error + archivo list"
  archivos_curso :: "int \<Rightarrow> py_error + archivo list"
  materias_profesor :: "int \<Rightarrow> py_error + (materia \<times> curso) list"
  materias_curso :: "int \<Rightarrow> py_error + materia list"

subsection \<open>Dictionaries\<close>

text \<open>
  A \<open>dict\<close> built from a literal is the list of its items in order. \<open>d[k]\<close> raises
  \<open>KeyError\<close> on a missing key; \<open>d.get(k, default)\<close> returns the default only when
  the key is missing, and the stored value (also a stored \<open>None\<close>) otherwise.
\<close>

type_synonym 'v dict = "(string \<times> 'v) list"

definition item :: "'v dict \<Rightarrow> string \<Rightarrow> py_error + 'v" where
  "item d k = (case map_of d k of None \<Rightarrow> Inl KeyError | Some v \<Rightarrow> Inr v)"

definition dict_get :: "'v dict \<Rightarrow> string \<Rightarrow> 'v \<Rightarrow> 'v" where
  "dict_get d k dflt = (case map_of d k of None \<Rightarrow> dflt | Some v \<Rightarrow> v)"

text \<open>Running a raising function over a list, stopping at the first exception.\<close>

fun map_err :: "('a \<Rightarrow> py_error + 'b) \<Rightarrow> 'a list \<Rightarrow> py_error + 'b list" where
  "map_err f [] = Inr []"
| "map_err f (x # xs) = bind (f x) (\<lambda>y. bind (map_err f xs) (\<lambda>ys. Inr (y # ys)))"

subsection \<open>\<open>_get_env_vars\<close>\<close>

definition get_env_vars :: "entorno \<Rightarrow> pystr option dict" where
  "get_env_vars env =
     [(''NOMBRE'', getenv env ''NOMBRE''),
      (''LIMITACIONES'', getenv env ''LIMITACIONES''),
      (''ROL_IA_ALUMNOS'', getenv env ''ROL_IA_ALUMNOS''),
      (''ROL_IA_PROFESORES'', getenv env ''ROL_IA_PROFESORES''),
      (''EDAD_REGULACION'', getenv env ''EDAD_REGULACION'')]"

subsection \<open>\<open>_get_institucion_data\<close>\<close>

definition institucion_default :: "pystr dict" where
  "institucion_default =
     [(''nombre'', lit ''No especificado''),
      (''valores'', lit ''No especificado''),
      (''metodologia'', lit ''No especificado''),
      (''configuracion'', lit ''Est'' @ [225] @ lit ''ndar'')]"

text \<open>
  The method is called only if present; an exception of the call is caught and logged,
  and then, as when the call returns \<open>None\<close>, the default dictionary is returned.
\<close>

definition get_institucion_data :: "usuario \<Rightarrow> pystr dict" where
  "get_institucion_data u =
     (case u_get_institucion u of
        Attr (Inr (Some i)) \<Rightarrow>
          [(''nombre'', fmt (getattr_default (inst_nombre i) (Some (lit ''No especificado'')))),
           (''valores'',
              fmt (getattr_default (valores_institucionales i) (Some (lit ''No especificado'')))),
           (''metodologia'',
              fmt (getattr_default (metodologia_pedagogica i) (Some (lit ''No especificado'')))),
           (''configuracion'',
              fmt (getattr_default (configuracion_ia i) (Some (lit ''Est'' @ [225] @ lit ''ndar''))))]
      | _ \<Rightarrow> institucion_default)"

subsection \<open>\<open>_get_archivos_data\<close>\<close>

text \<open>The dictionary built for one file of a teacher (lines 124 to 139).\<close>

definition entry_profesor :: "archivo \<Rightarrow> pystr dict" where
  "entry_profesor a =
     (let nombre_archivo =
            (case archivo_path a of
               None \<Rightarrow> lit ''Sin nombre''
             | Some p \<Rightarrow> if p = [] then lit ''Sin nombre'' else split_last p);
          nombre_materia =
            (case archivo_materia a of
               None \<Rightarrow> lit ''Sin materia''
             | Some m \<Rightarrow> or_default (materia_nombre m) (lit ''Sin materia''))
      in [(''tema'', or_default (nombre_tema a) (lit ''Sin tema'')),
          (''materia'', nombre_materia),
          (''nombre_archivo'', nombre_archivo)])"

text \<open>The text of a file as a student's entry carries it (lines 169 to 178).\<close>

definition texto_procesado :: "pystr option \<Rightarrow> pystr" where
  "texto_procesado t =
     (case t of
        None \<Rightarrow> lit ''Texto no disponible''
      | Some texto_str \<Rightarrow>
          if texto_str = [] then lit ''Texto no disponible''
          else if length texto_str > 2000 then take 2000 texto_str @ lit ''...''
          else texto_str)"

text \<open>The dictionary built for one file of a student (lines 169 to 195).\<close>

definition entry_alumno :: "archivo \<Rightarrow> pystr dict" where
  "entry_alumno a =
     (let nombre_materia =
            (case archivo_materia a of
               None \<Rightarrow> lit ''Sin materia''
             | Some m \<Rightarrow> or_default (materia_nombre m) (lit ''Sin materia''));
          nombre_curso =
            (case archivo_materia a of
               None \<Rightarrow> lit ''Sin curso''
             | Some m \<Rightarrow>
                 (case materia_curso m of
                    None \<Rightarrow> lit ''Sin curso''
                  | Some c \<Rightarrow> or_default (curso_nombre c) (lit ''Sin curso'')))
      in [(''tema'', or_default (nombre_tema a) (lit ''Sin tema'')),
          (''notas'', or_default (notas_adicionales a) (lit ''Sin notas adicionales'')),
          (''instrucciones'',
             or_default (instrucciones_ensenanza a)
               (lit ''Sin instrucciones espec'' @ [237] @ lit ''ficas'')),
          (''texto'', texto_procesado (texto_extraido a)),
          (''materia'', nombre_materia),
          (''curso'', nombre_curso)])"

text \<open>
  A log call whose message formats \<open>usuario.id\<close>: the message is built before it is
  logged, so the call raises when the attribute is missing.
\<close>

definition log_usuario_id :: "usuario \<Rightarrow> py_error + unit" where
  "log_usuario_id u = bind (read_attr (u_id u)) (\<lambda>i. Inr ())"

text \<open>
  The three nested \<open>try\<close> blocks of the source. Each handler logs the user's id and
  returns the empty list. On rows the body of the per-file \<open>try\<close> cannot raise, so each
  loop is a \<open>map\<close>. A student with no course (attribute missing, \<open>None\<close> or 0) gets a
  warning and the empty list.
\<close>

definition get_archivos_data :: "entorno \<Rightarrow> usuario \<Rightarrow> py_error + pystr dict list" where
  "get_archivos_data env u =
     try_except
       (bind (es_profesor u) (\<lambda>profesor.
          if profesor then
            try_except
              (bind (read_attr (u_id u)) (\<lambda>uid.
               bind (archivos_profesor env uid) (\<lambda>archivos.
               Inr (map entry_profesor archivos))))
              (\<lambda>query_error. bind (log_usuario_id u) (\<lambda>_. Inr []))
          else
            try_except
              (case u_curso_id u of
                 Attr (Some cid) \<Rightarrow>
                   if cid = 0 then bind (log_usuario_id u) (\<lambda>_. Inr [])
                   else bind (archivos_curso env cid) (\<lambda>archivos.
                        Inr (map entry_alumno archivos))
               | _ \<Rightarrow> bind (log_usuario_id u) (\<lambda>_. Inr []))
              (\<lambda>query_error. bind (log_usuario_id u) (\<lambda>_. Inr []))))
       (\<lambda>e. bind (log_usuario_id u) (\<lambda>_. Inr []))"

subsection \<open>\<open>_get_materias_profesor\<close> and \<open>_get_materias_alumno\<close>\<close>

definition materia_dict :: "materia \<Rightarrow> curso \<Rightarrow> pystr option dict" where
  "materia_dict m c =
     [(''nombre'', materia_nombre m),
      (''curso'', curso_nombre c),
      (''descripcion'',
         Some (or_default (materia_descripcion m) (lit ''Sin descripci'' @ [243] @ lit ''n'')))]"

text \<open>Any exception, the missing id included, is caught and gives the empty list.\<close>

definition get_materias_profesor :: "entorno \<Rightarrow> usuario \<Rightarrow> pystr option dict list" where
  "get_materias_profesor env profesor =
     (case bind (read_attr (u_id profesor)) (materias_profesor env) of
        Inl e \<Rightarrow> []
      | Inr materias_cursos \<Rightarrow> map (\<lambda>(m, c). materia_dict m c) materias_cursos)"

text \<open>The loop over the student's courses, one query for each.\<close>

fun materias_de_cursos :: "entorno \<Rightarrow> curso list \<Rightarrow> py_error + pystr option dict list" where
  "materias_de_cursos env [] = Inr []"
| "materias_de_cursos env (c # cs) =
     bind (materias_curso env (curso_id c)) (\<lambda>materias.
     bind (materias_de_cursos env cs) (\<lambda>resto.
     Inr (map (\<lambda>m. materia_dict m c) materias @ resto)))"

definition get_materias_alumno :: "entorno \<Rightarrow> usuario \<Rightarrow> pystr option dict list" where
  "get_materias_alumno env alumno =
     (case u_cursos alumno of
        NoAttr \<Rightarrow> []
      | Attr cursos \<Rightarrow>
          (case materias_de_cursos env cursos of Inl e \<Rightarrow> [] | Inr materias_data \<Rightarrow> materias_data))"

subsection \<open>\<open>_build_system_prompt\<close>\<close>

text \<open>The first thirteen lines of the prompt (lines 230 to 244 of the source).\<close>

definition prompt_head ::
  "pystr option dict \<Rightarrow> pystr option \<Rightarrow> pystr option \<Rightarrow> pystr option \<Rightarrow> pystr \<Rightarrow> int \<Rightarrow>
   pystr dict \<Rightarrow> py_error + pystr list" where
  "prompt_head env_vars rol_ia nombre_usuario apellido_usuario rol_usuario edad_usuario
     institucion_data =
     bind (item institucion_data ''nombre'') (\<lambda>i_nombre.
     bind (item institucion_data ''valores'') (\<lambda>i_valores.
     bind (item institucion_data ''metodologia'') (\<lambda>i_metodologia.
     bind (item institucion_data ''configuracion'') (\<lambda>i_configuracion.
     Inr
      [lit ''Eres '' @ fmt (dict_get env_vars ''NOMBRE'' (Some (lit ''un asistente educativo'')))
         @ lit '', '' @ fmt rol_ia @ lit ''.'',
       lit ''Tus limitaciones son: ''
         @ fmt (dict_get env_vars ''LIMITACIONES''
                  (Some (lit ''Responde de manera educativa y apropiada''))),
       lit ''Ahora mismo est'' @ [225] @ lit ''s hablando con:'',
       fmt nombre_usuario @ lit '' '' @ fmt apellido_usuario @ lit ''.'',
       lit ''Su rol es: '' @ rol_usuario @ lit ''.'',
       lit ''Su edad es: '' @ str_int edad_usuario @ lit '' a'' @ [241] @ lit ''os.'',
       lit ''Regulaci'' @ [243] @ lit ''n de edad: ''
         @ fmt (dict_get env_vars ''EDAD_REGULACION'' (Some (lit ''13'')))
         @ lit '' a'' @ [241] @ lit ''os.'',
       lit ''Informaci'' @ [243] @ lit ''n de la instituci'' @ [243] @ lit ''n:'',
       lit ''Nombre: '' @ i_nombre,
       lit ''Valores institucionales: '' @ i_valores,
       lit ''Metodolog'' @ [237] @ lit ''a pedag'' @ [243] @ lit ''gica: '' @ i_metodologia,
       lit ''Configuraci'' @ [243] @ lit ''n IA: '' @ i_configuracion,
       []]))))"

definition materia_line :: "pystr option dict \<Rightarrow> py_error + pystr" where
  "materia_line materia =
     bind (item materia ''nombre'') (\<lambda>nombre.
     bind (item materia ''curso'') (\<lambda>curso.
     Inr (lit ''- '' @ fmt nombre @ lit '' ('' @ fmt curso @ lit '')'')))"

text \<open>The lines added for file number \<open>idx\<close> of a teacher (lines 263 to 269).\<close>

definition archivo_lines_profesor :: "nat \<times> pystr dict \<Rightarrow> py_error + pystr list" where
  "archivo_lines_profesor p =
     (case p of (idx, archivo) \<Rightarrow>
     bind (item archivo ''tema'') (\<lambda>tema.
     bind (item archivo ''materia'') (\<lambda>materia.
     bind (item archivo ''nombre_archivo'') (\<lambda>nombre_archivo.
     Inr [[],
          lit ''Archivo '' @ digits idx @ lit '':'',
          lit ''- Tema: '' @ tema,
          lit ''- Materia: '' @ materia,
          lit ''- Nombre: '' @ nombre_archivo]))))"

text \<open>The lines added for file number \<open>idx\<close> of a student (lines 272 to 280).\<close>

definition archivo_lines_alumno :: "nat \<times> pystr dict \<Rightarrow> py_error + pystr list" where
  "archivo_lines_alumno p =
     (case p of (idx, archivo) \<Rightarrow>
     bind (item archivo ''tema'') (\<lambda>tema.
     bind (item archivo ''materia'') (\<lambda>materia.
     bind (item archivo ''notas'') (\<lambda>notas.
     bind (item archivo ''instrucciones'') (\<lambda>instrucciones.
     bind (item archivo ''texto'') (\<lambda>texto.
     Inr [lit ''Archivos cargados por el profesor.'',
          lit ''Archivo '' @ digits idx @ lit '':'',
          lit ''- Tema: '' @ tema,
          lit ''- Materia: '' @ materia,
          lit ''- Notas: '' @ notas,
          lit ''- Instrucciones de ense'' @ [241] @ lit ''anza: '' @ instrucciones,
          lit ''- Contenido: '' @ texto @ lit ''...'']))))))"

text \<open>
  The file block (lines 260 to 282): \<open>enumerate(archivos_data, 1)\<close> numbers the files
  from 1.
\<close>

definition archivos_block :: "bool \<Rightarrow> pystr dict list \<Rightarrow> py_error + pystr list" where
  "archivos_block profesor archivos_data =
     (if archivos_data \<noteq> [] then
        bind (map_err (if profesor then archivo_lines_profesor else archivo_lines_alumno)
                (enumerate 1 archivos_data))
          (\<lambda>bloques. Inr (concat bloques))
      else Inr [lit ''No hay archivos disponibles actualmente.''])"

text \<open>
  The list \<open>prompt_parts\<close> at the end of the \<open>try\<close> block, or the exception the block
  raises. The source compares \<open>usuario.rol\<close> with \<open>PROFESOR\<close> four times; the first
  comparison is the one that can raise, and the later ones give the same value.
\<close>

definition prompt_parts :: "entorno \<Rightarrow> usuario \<Rightarrow> py_error + pystr list" where
  "prompt_parts env u =
     (let env_vars = get_env_vars env in
      bind (read_attr (u_nombre u)) (\<lambda>nombre_usuario.
      let apellido_usuario = getattr_default (u_apellido u) (Some []) in
      bind (read_attr (u_rol u)) (\<lambda>rol.
      let rol_usuario = (case rol of Some r \<Rightarrow> rol_value env r | None \<Rightarrow> lit ''None'') in
      bind (calculate_age (today env) u) (\<lambda>edad_usuario.
      let institucion_data = get_institucion_data u in
      bind (get_archivos_data env u) (\<lambda>archivos_data.
      bind (es_profesor u) (\<lambda>profesor.
      let rol_ia =
            (if profesor
             then dict_get env_vars ''ROL_IA_PROFESORES''
                    (Some (lit ''un asistente educativo para profesores''))
             else dict_get env_vars ''ROL_IA_ALUMNOS''
                    (Some (lit ''un asistente educativo para estudiantes'')));
          materias_info =
            (if profesor then get_materias_profesor env u else get_materias_alumno env u)
      in
      bind (prompt_head env_vars rol_ia nombre_usuario apellido_usuario rol_usuario
              edad_usuario institucion_data) (\<lambda>cabecera.
      bind (map_err materia_line materias_info) (\<lambda>lineas_materias.
      bind (archivos_block profesor archivos_data) (\<lambda>bloque_archivos.
      Inr (cabecera
           @ [if profesor then lit ''Materias que ense'' @ [241] @ lit ''a:''
              else lit ''Materias en las que est'' @ [225] @ lit '' inscrito:'']
           @ lineas_materias
           @ [[],
              lit ''Archivos y contenidos disponibles del ''
                @ (if profesor then lit ''profesor'' else lit ''estudiante'') @ lit '':'']
           @ bloque_archivos))))))))))"

definition prompt_fallback :: "bool \<Rightarrow> pystr" where
  "prompt_fallback profesor =
     lit ''Eres un asistente educativo especializado para ''
       @ (if profesor then lit ''profesor'' else lit ''estudiante'')
       @ lit ''s. Ayuda de manera apropiada y educativa.''"

text \<open>
  The whole function: the joined lines, or, when the \<open>try\<close> block raised, the fallback
  text, for which the handler reads \<open>usuario.rol\<close>.
\<close>

definition build_system_prompt :: "entorno \<Rightarrow> usuario \<Rightarrow> py_error + pystr" where
  "build_system_prompt env u =
     try_except
       (bind (prompt_parts env u) (\<lambda>parts. Inr (join_nl parts)))
       (\<lambda>e. bind (es_profesor u) (\<lambda>profesor. Inr (prompt_fallback profesor)))"

section \<open>The connection to the inference API\<close>

text \<open>
  What an initialization reads from outside: the environment variable
  \<open>GROQ_API_KEY\<close>, the constructor \<open>Groq(api_key=...)\<close> and the validation call
  \<open>client.chat.completions.create(...)\<close>. An exception raised by one of the two calls
  is represented by its text \<open>str(e)\<close>, which is all the handler uses.
\<close>

datatype groq_client = Groq pystr

record completion =
  choices :: "pystr list"

record groq_world =
  env_api_key :: "pystr option"
  groq_new :: "pystr \<Rightarrow> pystr + groq_client"
  completions_create :: "groq_client \<Rightarrow> pystr + completion option"

record facade =
  client :: "groq_client option"
  initialization_error :: "pystr option"

text \<open>The \<open>except\<close> block of \<open>_initialize_groq\<close> (lines 58 to 63).\<close>

definition initialize_handler :: "pystr \<Rightarrow> facade \<Rightarrow> bool \<times> facade" where
  "initialize_handler e self =
     (False, self\<lparr>client := None,
                  initialization_error := Some (lit ''Error inicializando Groq: '' @ e)\<rparr>)"

definition key_missing_msg :: pystr where
  "key_missing_msg = lit ''GROQ_API_KEY no encontrada en variables de entorno''"

text \<open>
  \<open>_initialize_groq\<close>: the value returned and the object afterwards. \<open>not api_key\<close>
  holds for \<open>None\<close> and for the empty string.
\<close>

definition initialize_groq :: "groq_world \<Rightarrow> facade \<Rightarrow> bool \<times> facade" where
  "initialize_groq w self =
     (case env_api_key w of
        None \<Rightarrow> (False, self\<lparr>initialization_error := Some key_missing_msg\<rparr>)
      | Some api_key0 \<Rightarrow>
          if api_key0 = [] then (False, self\<lparr>initialization_error := Some key_missing_msg\<rparr>)
          else
            let api_key = strip api_key0 in
            if length api_key < 10 then
              (False, self\<lparr>initialization_error :=
                  Some (lit ''GROQ_API_KEY parece inv'' @ [225] @ lit ''lida (longitud: ''
                        @ digits (length api_key) @ lit '')'')\<rparr>)
            else
              (case groq_new w api_key of
                 Inl e \<Rightarrow> initialize_handler e self
               | Inr c \<Rightarrow>
                   let self1 = self\<lparr>client := Some c\<rparr> in
                   (case completions_create w c of
                      Inl e \<Rightarrow> initialize_handler e self1
                    | Inr None \<Rightarrow>
                        initialize_handler
                          (lit ''Respuesta vac'' @ [237] @ lit ''a en prueba de conexi''
                           @ [243] @ lit ''n'') self1
                    | Inr (Some test_completion) \<Rightarrow>
                        if choices test_completion = [] then
                          initialize_handler
                            (lit ''Respuesta vac'' @ [237] @ lit ''a en prueba de conexi''
                             @ [243] @ lit ''n'') self1
                        else (True, self1\<lparr>initialization_error := None\<rparr>))))"

text \<open>\<open>__init__\<close>, \<open>reinitialize\<close> and \<open>is_available\<close>.\<close>

definition init :: "groq_world \<Rightarrow> facade" where
  "init w = snd (initialize_groq w \<lparr>client = None, initialization_error = None\<rparr>)"

definition reinitialize :: "groq_world \<Rightarrow> facade \<Rightarrow> bool \<times> facade" where
  "reinitialize w self = initialize_groq w (self\<lparr>client := None, initialization_error := None\<rparr>)"

definition is_available :: "facade \<Rightarrow> bool" where
  "is_available self \<longleftrightarrow> client self \<noteq> None"

text \<open>
  The states of the object: \<open>reached w self\<close> holds when \<open>self\<close> is the object after its
  construction or after a \<open>reinitialize\<close>, and \<open>w\<close> is what that last initialization
  read from outside. \<open>_initialize_groq\<close> runs only inside these two.
\<close>

inductive reached :: "groq_world \<Rightarrow> facade \<Rightarrow> bool" where
  constructed: "reached w (init w)"
| reinitialized: "reached w0 self \<Longrightarrow> reached w (snd (reinitialize w self))"

text \<open>
  The validation call of an initialization succeeds: a key is configured and plausible,
  the client is constructed, and the test completion returns a response with at least
  one choice.
\<close>

definition validation_ok :: "groq_world \<Rightarrow> bool" where
  "validation_ok w \<longleftrightarrow>
     (case env_api_key w of
        None \<Rightarrow> False
      | Some k \<Rightarrow>
          k \<noteq> [] \<and> 10 \<le> length (strip k) \<and>
          (case groq_new w (strip k) of
             Inl e \<Rightarrow> False
           | Inr c \<Rightarrow>
               (case completions_create w c of
                  Inr (Some r) \<Rightarrow> choices r \<noteq> []
                | _ \<Rightarrow> False)))"

section \<open>Chat records\<close>

text \<open>\<open>datetime\<close> values, and \<open>strftime('%d/%m/%Y %H:%M')\<close> on them.\<close>

record datetime =
  dt_year :: nat
  dt_month :: nat
  dt_day :: nat
  dt_hour :: nat
  dt_minute :: nat
  dt_second :: nat

definition pad2 :: "nat \<Rightarrow> pystr" where
  "pad2 n = (if n < 10 then 48 # digits n else digits n)"

definition pad4 :: "nat \<Rightarrow> pystr" where
  "pad4 n = replicate (4 - length (digits n)) 48 @ digits n"

definition strftime_dmY_HM :: "datetime \<Rightarrow> pystr" where
  "strftime_dmY_HM t =
     pad2 (dt_day t) @ lit ''/'' @ pad2 (dt_month t) @ lit ''/'' @ pad4 (dt_year t)
     @ lit '' '' @ pad2 (dt_hour t) @ lit '':'' @ pad2 (dt_minute t)"

text \<open>
  The two tables, each keyed by its primary key \<open>id\<close>. Of a message only the chat it
  belongs to matters here.
\<close>

record chat_row =
  nombre_chat :: pystr
  usuario_id :: int
  fecha_creacion :: datetime
  fecha_ultimo_mensaje :: datetime

record mensaje_row =
  mensaje_chat_id :: int

record db =
  chats :: "int \<rightharpoonup> chat_row"
  mensajes :: "int \<rightharpoonup> mensaje_row"

text \<open>
  The session \<open>db.session\<close>: the committed records and the view of the open
  transaction. Queries read the view, changes are made on the view, \<open>commit\<close> makes
  the view the committed records and \<open>rollback\<close> discards it.
\<close>

record session =
  committed :: db
  pending :: db

definition commit :: "session \<Rightarrow> session" where
  "commit s = s\<lparr>committed := pending s\<rparr>"

definition rollback :: "session \<Rightarrow> session" where
  "rollback s = s\<lparr>pending := committed s\<rparr>"

text \<open>\<open>ChatIA.query.filter_by(id=chat_id, usuario_id=usuario_id).first()\<close>.\<close>

definition chat_query_first :: "db \<Rightarrow> int \<Rightarrow> int \<Rightarrow> chat_row option" where
  "chat_query_first d cid uid =
     (case chats d cid of
        None \<Rightarrow> None
      | Some c \<Rightarrow> if usuario_id c = uid then Some c else None)"

text \<open>\<open>MensajeChatIA.query.filter_by(chat_id=chat_id).delete()\<close>.\<close>

definition mensajes_delete :: "int \<Rightarrow> db \<Rightarrow> db" where
  "mensajes_delete cid d =
     d\<lparr>mensajes := (\<lambda>k. case mensajes d k of
                           None \<Rightarrow> None
                         | Some m \<Rightarrow> if mensaje_chat_id m = cid then None else Some m)\<rparr>"

text \<open>\<open>db.session.delete(chat)\<close> for the chat with key \<open>cid\<close>, and \<open>db.session.add(chat)\<close>.\<close>

definition chat_delete :: "int \<Rightarrow> db \<Rightarrow> db" where
  "chat_delete cid d = d\<lparr>chats := (chats d)(cid := None)\<rparr>"

definition chat_put :: "int \<Rightarrow> chat_row \<Rightarrow> db \<Rightarrow> db" where
  "chat_put cid c d = d\<lparr>chats := (chats d)(cid \<mapsto> c)\<rparr>"

subsection \<open>The three operations\<close>

text \<open>
  The persistence calls of an operation are its calls on \<open>db.session\<close> and on query
  objects, and the read of an attribute of a row that a \<open>commit\<close> has expired (the
  session reloads the row from the database), numbered from 0 in the order the source
  makes them. \<open>bad k\<close> says that call
  number \<open>k\<close> raises; a call that raises changes nothing, and a \<open>commit\<close> that raises
  commits nothing. \<open>rollback\<close> itself does not raise. Each operation is given as the
  body of its \<open>try\<close> block, which returns a value or an exception together with the
  session at that point, and as the whole function, where the handler rolls back.
\<close>

type_synonym faults = "nat \<Rightarrow> bool"

text \<open>
  What \<open>crear_chat\<close> reads from outside: the local time \<open>datetime.now()\<close>, the two
  readings of \<open>datetime.utcnow()\<close>, and the key the database gives the new row.
\<close>

record reloj =
  now_local :: datetime
  utcnow_1 :: datetime
  utcnow_2 :: datetime
  nuevo_id :: int

text \<open>
  \<open>crear_chat\<close>: calls 0 (\<open>add\<close>), 1 (\<open>commit\<close>) and 2, the read of \<open>chat.id\<close> in the
  log line that follows the \<open>commit\<close> inside the \<open>try\<close> block (line 389): the commit
  has expired the row, so the read reloads it. \<open>not nombre_chat\<close> holds for \<open>None\<close>
  and for the empty string.
\<close>

definition nombre_por_defecto :: "reloj \<Rightarrow> pystr" where
  "nombre_por_defecto r = lit ''Chat '' @ strftime_dmY_HM (now_local r)"

definition crear_chat_try ::
  "faults \<Rightarrow> reloj \<Rightarrow> int \<Rightarrow> pystr option \<Rightarrow> session \<Rightarrow>
   (py_error + int \<times> chat_row) \<times> session" where
  "crear_chat_try bad r uid nombre s =
     (let nombre_chat' =
            (case nombre of
               None \<Rightarrow> nombre_por_defecto r
             | Some n \<Rightarrow> if n = [] then nombre_por_defecto r else n);
          chat = \<lparr>nombre_chat = nombre_chat', usuario_id = uid,
                  fecha_creacion = utcnow_1 r, fecha_ultimo_mensaje = utcnow_2 r\<rparr>
      in
      if bad 0 then (Inl SQLAlchemyError, s)
      else
        let s1 = s\<lparr>pending := chat_put (nuevo_id r) chat (pending s)\<rparr> in
        if bad 1 then (Inl SQLAlchemyError, s1)
        else
          let s2 = commit s1 in
          if bad 2 then (Inl SQLAlchemyError, s2)
          else (Inr (nuevo_id r, chat), s2))"

definition crear_chat ::
  "faults \<Rightarrow> reloj \<Rightarrow> int \<Rightarrow> pystr option \<Rightarrow> session \<Rightarrow> (int \<times> chat_row) option \<times> session"
  where
  "crear_chat bad r uid nombre s =
     (case crear_chat_try bad r uid nombre s of
        (Inr chat, s') \<Rightarrow> (Some chat, s')
      | (Inl e, s') \<Rightarrow> (None, rollback s'))"

text \<open>
  \<open>eliminar_chat\<close>: calls 0 (the query), 1 (the deletion of the messages), 2
  (\<open>delete\<close>) and 3 (\<open>commit\<close>). The log line after the \<open>commit\<close> formats the
  parameter \<open>chat_id\<close>, not the row.
\<close>

definition eliminar_chat_try ::
  "faults \<Rightarrow> int \<Rightarrow> int \<Rightarrow> session \<Rightarrow> (py_error + bool) \<times> session" where
  "eliminar_chat_try bad cid uid s =
     (if bad 0 then (Inl SQLAlchemyError, s)
      else
        (case chat_query_first (pending s) cid uid of
           None \<Rightarrow> (Inr False, s)
         | Some chat \<Rightarrow>
             if bad 1 then (Inl SQLAlchemyError, s)
             else
               let s1 = s\<lparr>pending := mensajes_delete cid (pending s)\<rparr> in
               if bad 2 then (Inl SQLAlchemyError, s1)
               else
                 let s2 = s1\<lparr>pending := chat_delete cid (pending s1)\<rparr> in
                 if bad 3 then (Inl SQLAlchemyError, s2)
                 else (Inr True, commit s2)))"

definition eliminar_chat :: "faults \<Rightarrow> int \<Rightarrow> int \<Rightarrow> session \<Rightarrow> bool \<times> session" where
  "eliminar_chat bad cid uid s =
     (case eliminar_chat_try bad cid uid s of
        (Inr b, s') \<Rightarrow> (b, s')
      | (Inl e, s') \<Rightarrow> (False, rollback s'))"

text \<open>
  \<open>renombrar_chat\<close>: calls 0 (the query) and 1 (\<open>commit\<close>); the assignment to
  \<open>chat.nombre_chat\<close> changes the row in the view of the transaction.
\<close>

definition renombrar_chat_try ::
  "faults \<Rightarrow> int \<Rightarrow> int \<Rightarrow> pystr \<Rightarrow> session \<Rightarrow> (py_error + bool) \<times> session" where
  "renombrar_chat_try bad cid uid nuevo_nombre s =
     (if bad 0 then (Inl SQLAlchemyError, s)
      else
        (case chat_query_first (pending s) cid uid of
           None \<Rightarrow> (Inr False, s)
         | Some chat \<Rightarrow>
             let s1 = s\<lparr>pending :=
                        chat_put cid (chat\<lparr>nombre_chat := take 200 (strip nuevo_nombre)\<rparr>)
                          (pending s)\<rparr>
             in
             if bad 1 then (Inl SQLAlchemyError, s1)
             else (Inr True, commit s1)))"

definition renombrar_chat ::
  "faults \<Rightarrow> int \<Rightarrow> int \<Rightarrow> pystr \<Rightarrow> session \<Rightarrow> bool \<times> session" where
  "renombrar_chat bad cid uid nuevo_nombre s =
     (case renombrar_chat_try bad cid uid nuevo_nombre s of
        (Inr b, s') \<Rightarrow> (b, s')
      | (Inl e, s') \<Rightarrow> (False, rollback s'))"

text \<open>No persistence call raises.\<close>

definition no_faults :: faults where
  "no_faults = (\<lambda>k. False)"

section \<open>Files that differ only in their contents\<close>

text \<open>
  Two file rows agree on everything except the extracted text, the additional notes
  and the teaching instructions.
\<close>

definition mismo_salvo_contenido :: "archivo \<Rightarrow> archivo \<Rightarrow> bool" where
  "mismo_salvo_contenido a b \<longleftrightarrow>
     archivo_path a = archivo_path b \<and> nombre_tema a = nombre_tema b \<and>
     archivo_materia a = archivo_materia b"

section \<open>Concrete inputs\<close>

text \<open>Inputs on which the properties below are evaluated.\<close>

definition t_ej :: datetime where
  "t_ej = \<lparr>dt_year = 2026, dt_month = 11, dt_day = 4, dt_hour = 9, dt_minute = 5,
            dt_second = 0\<rparr>"

definition chat_ej :: chat_row where
  "chat_ej = \<lparr>nombre_chat = lit ''Dudas'', usuario_id = 7, fecha_creacion = t_ej,
               fecha_ultimo_mensaje = t_ej\<rparr>"

definition db_ej :: db where
  "db_ej = \<lparr>chats = [1 \<mapsto> chat_ej],
            mensajes = [10 \<mapsto> \<lparr>mensaje_chat_id = 1\<rparr>, 11 \<mapsto> \<lparr>mensaje_chat_id = 2\<rparr>]\<rparr>"

definition sesion_ej :: session where
  "sesion_ej = \<lparr>committed = db_ej, pending = db_ej\<rparr>"

definition reloj_ej :: reloj where
  "reloj_ej = \<lparr>now_local = t_ej, utcnow_1 = t_ej, utcnow_2 = t_ej, nuevo_id = 2\<rparr>"

definition hoy_ej :: date where
  "hoy_ej = \<lparr>year = 2026, month = 11, day = 4\<rparr>"

definition alumna_ej :: usuario where
  "alumna_ej =
     \<lparr>u_id = Attr 7, u_nombre = Attr (Some (lit ''Ana'')), u_apellido = Attr (Some (lit ''Ruiz'')),
      u_rol = Attr (Some ALUMNO),
      u_fecha_nacimiento = Attr (Some \<lparr>year = 2010, month = 12, day = 24\<rparr>),
      u_curso_id = Attr (Some 3),
      u_cursos = Attr [\<lparr>curso_id = 3, curso_nombre = Some (lit ''3A'')\<rparr>],
      u_get_institucion = NoAttr\<rparr>"

definition archivo_ej :: archivo where
  "archivo_ej =
     \<lparr>archivo_path = Some (lit ''uploads/tema1.pdf''), nombre_tema = Some (lit ''Fracciones''),
      notas_adicionales = None, instrucciones_ensenanza = None,
      texto_extraido = Some (lit ''Hola''), archivo_materia = None\<rparr>"

text \<open>An environment in which none of the five prompt variables is set.\<close>

definition entorno_ej :: entorno where
  "entorno_ej =
     \<lparr>getenv = (\<lambda>k. None), today = hoy_ej,
      rol_value = (\<lambda>r. case r of PROFESOR \<Rightarrow> lit ''profesor'' | ALUMNO \<Rightarrow> lit ''alumno''),
      archivos_profesor = (\<lambda>i. Inr [archivo_ej]),
      archivos_curso = (\<lambda>i. Inr [archivo_ej]),
      materias_profesor = (\<lambda>i. Inr []),
      materias_curso = (\<lambda>i. Inr [])\<rparr>"

definition nombre_largo_ej :: pystr where
  "nombre_largo_ej = 32 # replicate 200 97"

text \<open>
  A world in which the initialization succeeds, and one without an API key.
\<close>

definition mundo_ok :: groq_world where
  "mundo_ok =
     \<lparr>env_api_key = Some (lit ''gsk_0123456789abcdef''),
      groq_new = (\<lambda>k. Inr (Groq k)),
      completions_create = (\<lambda>c. Inr (Some \<lparr>choices = [lit ''ok'']\<rparr>))\<rparr>"

definition mundo_sin_clave :: groq_world where
  "mundo_sin_clave = mundo_ok\<lparr>env_api_key := None\<rparr>"

definition profesor_ej :: usuario where
  "profesor_ej = alumna_ej\<lparr>u_rol := Attr (Some PROFESOR)\<rparr>"

text \<open>The same file as \<open>archivo_ej\<close> with other contents.\<close>

definition archivo_otro_ej :: archivo where
  "archivo_otro_ej =
     archivo_ej\<lparr>texto_extraido := Some (lit ''Examen resuelto''),
                 notas_adicionales := Some (lit ''No mostrar''),
                 instrucciones_ensenanza := Some (lit ''Solo para el profesor'')\<rparr>"

section \<open>Properties\<close>

lemma bind_simps [simp]:
  "bind (Inl e) f = Inl e"
  "bind (Inr v) f = f v"
  by (simp_all add: bind_def)

lemma try_except_simps [simp]:
  "try_except (Inl e) h = h e"
  "try_except (Inr v) h = Inr v"
  by (simp_all add: try_except_def)

lemma read_attr_simps [simp]:
  "read_attr NoAttr = Inl AttributeError"
  "read_attr (Attr v) = Inr v"
  by (simp_all add: read_attr_def)

lemma edad_por_rol_Attr:
  "u_rol u = Attr r \<Longrightarrow> edad_por_rol u = Inr (if r = Some PROFESOR then 30 else 16)"
  by (simp add: edad_por_rol_def es_profesor_def)

text \<open>
  The calendar age is the number of birthdays that have passed: the birthday of that
  age is not after today, and the next one is.
\<close>

lemma calendar_age_between_birthdays:
  "date_le (nth_birthday nac (calendar_age hoy nac)) hoy \<and>
   \<not> date_le (nth_birthday nac (calendar_age hoy nac + 1)) hoy"
  by (auto simp: date_le_def nth_birthday_def calendar_age_def birthday_occurred_def)


text \<open>
  C7. When the birth date is absent (the attribute is missing or \<open>None\<close>),
  \<open>_calculate_age\<close> returns 30 for a teacher and 16 for any other role. When a birth
  date is present it returns the calendar age (difference of the years, less one if
  this year's birthday has not yet occurred) clamped to the interval from 0 to 120.
\<close>

theorem calculate_age_spec:
  "((u_fecha_nacimiento u = NoAttr \<or> u_fecha_nacimiento u = Attr None) \<and> u_rol u = Attr r \<longrightarrow>
      calculate_age hoy u = Inr (if r = Some PROFESOR then 30 else 16)) \<and>
   (u_fecha_nacimiento u = Attr (Some nac) \<longrightarrow>
      calculate_age hoy u = Inr (clamp_age (calendar_age hoy nac)) \<and>
      0 \<le> clamp_age (calendar_age hoy nac) \<and> clamp_age (calendar_age hoy nac) \<le> 120)"
proof (intro conjI impI)
  assume "(u_fecha_nacimiento u = NoAttr \<or> u_fecha_nacimiento u = Attr None) \<and> u_rol u = Attr r"
  then show "calculate_age hoy u = Inr (if r = Some PROFESOR then 30 else 16)"
    by (auto simp: calculate_age_def edad_por_rol_Attr)
next
  assume "u_fecha_nacimiento u = Attr (Some nac)"
  then show "calculate_age hoy u = Inr (clamp_age (calendar_age hoy nac))"
    by (auto simp: calculate_age_def calendar_age_def birthday_occurred_def tuple_less_def
        clamp_age_def Let_def)
next
  show "0 \<le> clamp_age (calendar_age hoy nac)" by (simp add: clamp_age_def)
next
  show "clamp_age (calendar_age hoy nac) \<le> 120" by (simp add: clamp_age_def)
qed

theorem calculate_age_spec_witness:
  "calculate_age hoy_ej (alumna_ej\<lparr>u_fecha_nacimiento := NoAttr\<rparr>) = Inr 16 \<and>
   calculate_age hoy_ej (alumna_ej\<lparr>u_fecha_nacimiento := Attr None, u_rol := Attr (Some PROFESOR)\<rparr>)
     = Inr 30 \<and>
   calculate_age hoy_ej alumna_ej = Inr 15"
proof -
  have ha: "(u_fecha_nacimiento (alumna_ej\<lparr>u_fecha_nacimiento := NoAttr\<rparr>) = NoAttr \<or>
             u_fecha_nacimiento (alumna_ej\<lparr>u_fecha_nacimiento := NoAttr\<rparr>) = Attr None) \<and>
            u_rol (alumna_ej\<lparr>u_fecha_nacimiento := NoAttr\<rparr>) = Attr (Some ALUMNO)"
    by (simp add: alumna_ej_def)
  from calculate_age_spec [where u = "alumna_ej\<lparr>u_fecha_nacimiento := NoAttr\<rparr>" and r = "Some ALUMNO"
      and hoy = hoy_ej] ha
  have "calculate_age hoy_ej (alumna_ej\<lparr>u_fecha_nacimiento := NoAttr\<rparr>) =
          Inr (if Some ALUMNO = Some PROFESOR then 30 else 16)"
    by blast
  then have a: "calculate_age hoy_ej (alumna_ej\<lparr>u_fecha_nacimiento := NoAttr\<rparr>) = Inr 16"
    by simp
  let ?p = "alumna_ej\<lparr>u_fecha_nacimiento := Attr None, u_rol := Attr (Some PROFESOR)\<rparr>"
  have hb: "(u_fecha_nacimiento ?p = NoAttr \<or> u_fecha_nacimiento ?p = Attr None) \<and>
            u_rol ?p = Attr (Some PROFESOR)"
    by simp
  from calculate_age_spec [where u = ?p and r = "Some PROFESOR" and hoy = hoy_ej] hb
  have "calculate_age hoy_ej ?p = Inr (if Some PROFESOR = Some PROFESOR then 30 else 16)"
    by blast
  then have b: "calculate_age hoy_ej ?p = Inr 30"
    by simp
  let ?nac = "\<lparr>year = 2010, month = 12, day = 24\<rparr>"
  have hc: "u_fecha_nacimiento alumna_ej = Attr (Some ?nac)"
    by (simp add: alumna_ej_def)
  from calculate_age_spec [where u = alumna_ej and nac = ?nac and hoy = hoy_ej] hc
  have "calculate_age hoy_ej alumna_ej = Inr (clamp_age (calendar_age hoy_ej ?nac))"
    by blast
  moreover have "clamp_age (calendar_age hoy_ej ?nac) = 15"
    by (simp add: hoy_ej_def clamp_age_def calendar_age_def birthday_occurred_def)
  ultimately have c: "calculate_age hoy_ej alumna_ej = Inr 15"
    by simp
  from a b c show ?thesis by blast
qed

subsection \<open>Chat records\<close>

lemma rollback_simps [simp]:
  "committed (rollback s) = committed s" "pending (rollback s) = committed s"
  by (simp_all add: rollback_def)

lemma commit_simps [simp]:
  "committed (commit s) = pending s" "pending (commit s) = pending s"
  by (simp_all add: commit_def)

lemma chat_query_first_Some:
  "chat_query_first d cid uid = Some c \<longleftrightarrow> chats d cid = Some c \<and> usuario_id c = uid"
  by (auto simp: chat_query_first_def split: option.splits)

lemma chat_query_first_None:
  "chat_query_first d cid uid = None \<longleftrightarrow>
     chats d cid = None \<or> (\<exists>c. chats d cid = Some c \<and> usuario_id c \<noteq> uid)"
  by (auto simp: chat_query_first_def split: option.splits)

lemma eliminar_chat_not_found:
  assumes "chat_query_first (pending s) cid uid = None"
  shows "fst (eliminar_chat bad cid uid s) = False"
    and "committed (snd (eliminar_chat bad cid uid s)) = committed s"
    and "\<not> bad 0 \<Longrightarrow> snd (eliminar_chat bad cid uid s) = s"
  using assms by (simp_all add: eliminar_chat_def eliminar_chat_try_def)

lemma eliminar_chat_found:
  assumes "chat_query_first (pending s) cid uid = Some c"
    and "\<not> bad 0" "\<not> bad 1" "\<not> bad 2" "\<not> bad 3"
  shows "eliminar_chat bad cid uid s =
           (True, \<lparr>committed = chat_delete cid (mensajes_delete cid (pending s)),
                   pending = chat_delete cid (mensajes_delete cid (pending s))\<rparr>)"
  using assms by (simp add: eliminar_chat_def eliminar_chat_try_def Let_def commit_def)

lemma deleted_chats:
  "chats (chat_delete cid (mensajes_delete cid d)) j = (if j = cid then None else chats d j)"
  by (simp add: chat_delete_def mensajes_delete_def)

lemma deleted_mensajes:
  "mensajes (chat_delete cid (mensajes_delete cid d)) k =
     (case mensajes d k of
        None \<Rightarrow> None
      | Some m \<Rightarrow> if mensaje_chat_id m = cid then None else Some m)"
  by (simp add: chat_delete_def mensajes_delete_def)

text \<open>
  C1. \<open>eliminar_chat\<close>, for every chat id and user id. When the query finds no chat
  with that id, or the chat with that id belongs to another user, it returns false and
  the committed records are unchanged (and the session is unchanged altogether when
  the query itself does not raise). When the chat with that id belongs to that user
  and no persistence call raises, it returns true, and in the committed records the
  chat is gone, no message of that chat is left, and every other chat and message is
  as before.
\<close>

theorem eliminar_chat_spec:
  "((chats (pending s) cid = None \<or>
     (\<exists>c. chats (pending s) cid = Some c \<and> usuario_id c \<noteq> uid)) \<longrightarrow>
      fst (eliminar_chat bad cid uid s) = False \<and>
      committed (snd (eliminar_chat bad cid uid s)) = committed s \<and>
      (\<not> bad 0 \<longrightarrow> snd (eliminar_chat bad cid uid s) = s)) \<and>
   ((\<exists>c. chats (pending s) cid = Some c \<and> usuario_id c = uid) \<and>
    \<not> bad 0 \<and> \<not> bad 1 \<and> \<not> bad 2 \<and> \<not> bad 3 \<longrightarrow>
      fst (eliminar_chat bad cid uid s) = True \<and>
      pending (snd (eliminar_chat bad cid uid s)) = committed (snd (eliminar_chat bad cid uid s)) \<and>
      chats (committed (snd (eliminar_chat bad cid uid s))) cid = None \<and>
      (\<forall>k m. mensajes (committed (snd (eliminar_chat bad cid uid s))) k = Some m \<longrightarrow>
             mensaje_chat_id m \<noteq> cid) \<and>
      (\<forall>j. j \<noteq> cid \<longrightarrow>
             chats (committed (snd (eliminar_chat bad cid uid s))) j = chats (pending s) j) \<and>
      (\<forall>k m. mensajes (pending s) k = Some m \<and> mensaje_chat_id m \<noteq> cid \<longrightarrow>
             mensajes (committed (snd (eliminar_chat bad cid uid s))) k = Some m))"
proof (intro conjI impI)
  assume nf: "chats (pending s) cid = None \<or>
     (\<exists>c. chats (pending s) cid = Some c \<and> usuario_id c \<noteq> uid)"
  then have q: "chat_query_first (pending s) cid uid = None"
    by (simp add: chat_query_first_None)
  show "fst (eliminar_chat bad cid uid s) = False"
    by (rule eliminar_chat_not_found(1) [OF q])
  show "committed (snd (eliminar_chat bad cid uid s)) = committed s"
    by (rule eliminar_chat_not_found(2) [OF q])
  show "snd (eliminar_chat bad cid uid s) = s" if "\<not> bad 0"
    using q that by (rule eliminar_chat_not_found(3))
next
  assume "(\<exists>c. chats (pending s) cid = Some c \<and> usuario_id c = uid) \<and>
    \<not> bad 0 \<and> \<not> bad 1 \<and> \<not> bad 2 \<and> \<not> bad 3"
  then obtain c where q: "chat_query_first (pending s) cid uid = Some c"
    and b: "\<not> bad 0" "\<not> bad 1" "\<not> bad 2" "\<not> bad 3"
    by (auto simp: chat_query_first_Some)
  note r = eliminar_chat_found [OF q b]
  show "fst (eliminar_chat bad cid uid s) = True" by (simp add: r)
  show "pending (snd (eliminar_chat bad cid uid s)) = committed (snd (eliminar_chat bad cid uid s))"
    by (simp add: r)
  show "chats (committed (snd (eliminar_chat bad cid uid s))) cid = None"
    by (simp add: r deleted_chats)
  show "\<forall>k m. mensajes (committed (snd (eliminar_chat bad cid uid s))) k = Some m \<longrightarrow>
             mensaje_chat_id m \<noteq> cid"
    by (auto simp: r deleted_mensajes split: option.splits if_splits)
  show "\<forall>j. j \<noteq> cid \<longrightarrow>
             chats (committed (snd (eliminar_chat bad cid uid s))) j = chats (pending s) j"
    by (simp add: r deleted_chats)
  show "\<forall>k m. mensajes (pending s) k = Some m \<and> mensaje_chat_id m \<noteq> cid \<longrightarrow>
             mensajes (committed (snd (eliminar_chat bad cid uid s))) k = Some m"
    by (simp add: r deleted_mensajes)
qed

theorem eliminar_chat_spec_witness:
  "fst (eliminar_chat no_faults 1 8 sesion_ej) = False \<and>
   snd (eliminar_chat no_faults 1 8 sesion_ej) = sesion_ej \<and>
   fst (eliminar_chat no_faults 1 7 sesion_ej) = True \<and>
   chats (committed (snd (eliminar_chat no_faults 1 7 sesion_ej))) 1 = None \<and>
   mensajes (committed (snd (eliminar_chat no_faults 1 7 sesion_ej))) 11 =
     Some \<lparr>mensaje_chat_id = 2\<rparr>"
proof -
  have other: "chats (pending sesion_ej) 1 = None \<or>
      (\<exists>c. chats (pending sesion_ej) 1 = Some c \<and> usuario_id c \<noteq> 8)"
    by (simp add: sesion_ej_def db_ej_def chat_ej_def)
  have own: "(\<exists>c. chats (pending sesion_ej) 1 = Some c \<and> usuario_id c = 7) \<and>
      \<not> no_faults 0 \<and> \<not> no_faults 1 \<and> \<not> no_faults 2 \<and> \<not> no_faults 3"
    by (simp add: sesion_ej_def db_ej_def chat_ej_def no_faults_def)
  have kept: "mensajes (pending sesion_ej) 11 = Some \<lparr>mensaje_chat_id = 2\<rparr> \<and>
      mensaje_chat_id \<lparr>mensaje_chat_id = 2\<rparr> \<noteq> 1"
    by (simp add: sesion_ej_def db_ej_def)
  have nb: "\<not> no_faults 0" by (simp add: no_faults_def)
  from eliminar_chat_spec [where s = sesion_ej and cid = 1 and uid = 8 and bad = no_faults] other nb
  have a: "fst (eliminar_chat no_faults 1 8 sesion_ej) = False \<and>
           snd (eliminar_chat no_faults 1 8 sesion_ej) = sesion_ej"
    by blast
  from eliminar_chat_spec [where s = sesion_ej and cid = 1 and uid = 7 and bad = no_faults] own kept
  have b: "fst (eliminar_chat no_faults 1 7 sesion_ej) = True \<and>
      chats (committed (snd (eliminar_chat no_faults 1 7 sesion_ej))) 1 = None \<and>
      mensajes (committed (snd (eliminar_chat no_faults 1 7 sesion_ej))) 11 =
        Some \<lparr>mensaje_chat_id = 2\<rparr>"
    by blast
  from a b show ?thesis by blast
qed

text \<open>
  Where the rollback does what is expected of it: in \<open>eliminar_chat\<close> and
  \<open>renombrar_chat\<close> whenever the \<open>try\<close> block raises, and in \<open>crear_chat\<close> when \<open>add\<close> or
  \<open>commit\<close> raises. The committed records are then as before the call, the transaction
  holds no change, and the result is the negative one.
\<close>

lemma crear_chat_raises_before_commit:
  "bad 0 \<or> bad 1 \<Longrightarrow>
     crear_chat bad r uid nombre s = (None, \<lparr>committed = committed s, pending = committed s\<rparr>)"
  by (auto simp: crear_chat_def crear_chat_try_def Let_def rollback_def)

lemma eliminar_chat_raises:
  "fst (eliminar_chat_try bad cid uid s) = Inl e \<Longrightarrow>
     eliminar_chat bad cid uid s = (False, \<lparr>committed = committed s, pending = committed s\<rparr>)"
  by (auto simp: eliminar_chat_def eliminar_chat_try_def Let_def rollback_def
      split: if_splits option.splits)

lemma renombrar_chat_raises:
  "fst (renombrar_chat_try bad cid uid n s) = Inl e \<Longrightarrow>
     renombrar_chat bad cid uid n s = (False, \<lparr>committed = committed s, pending = committed s\<rparr>)"
  by (auto simp: renombrar_chat_def renombrar_chat_try_def Let_def rollback_def
      split: if_splits option.splits)

lemma crear_chat_try_raises_iff:
  "(\<exists>e. fst (crear_chat_try bad r uid nombre s) = Inl e) \<longleftrightarrow> bad 0 \<or> bad 1 \<or> bad 2"
  by (auto simp: crear_chat_try_def Let_def)

lemma eliminar_chat_try_raises_iff:
  "(\<exists>e. fst (eliminar_chat_try bad cid uid s) = Inl e) \<longleftrightarrow>
     bad 0 \<or> (chat_query_first (pending s) cid uid \<noteq> None \<and> (bad 1 \<or> bad 2 \<or> bad 3))"
  by (auto simp: eliminar_chat_try_def Let_def split: option.splits)

lemma renombrar_chat_try_raises_iff:
  "(\<exists>e. fst (renombrar_chat_try bad cid uid n s) = Inl e) \<longleftrightarrow>
     bad 0 \<or> (chat_query_first (pending s) cid uid \<noteq> None \<and> bad 1)"
  by (auto simp: renombrar_chat_try_def Let_def split: option.splits)

lemma chats_chat_put: "chats (chat_put cid c d) j = (if j = cid then Some c else chats d j)"
  by (simp add: chat_put_def)

text \<open>
  In \<open>crear_chat\<close> the read of \<open>chat.id\<close> comes after the \<open>commit\<close>: when it raises, the
  handler has nothing left to roll back, and the function returns \<open>None\<close> although the
  chat is in the committed records.
\<close>

lemma crear_chat_raises_after_commit:
  assumes "\<not> bad 0" "\<not> bad 1" "bad 2"
  shows "fst (crear_chat bad r uid nombre s) = None"
    and "chats (committed (snd (crear_chat bad r uid nombre s))) (nuevo_id r) \<noteq> None"
  using assms
  by (simp_all add: crear_chat_def crear_chat_try_def Let_def rollback_def commit_def
      chats_chat_put)

text \<open>
  C3. The evaluation of \<open>crear_chat\<close> for user 7 with no name, on records that hold
  no chat with key 2, when the persistence layer raises at the read that follows the
  \<open>commit\<close>: the result is \<open>None\<close>, and the committed records now hold the new chat under
  key 2, so the records are not unchanged.
\<close>

theorem crear_chat_none_after_commit:
  "chats (committed sesion_ej) 2 = None \<and>
   fst (crear_chat (\<lambda>k. k = 2) reloj_ej 7 None sesion_ej) = None \<and>
   map_option usuario_id
     (chats (committed (snd (crear_chat (\<lambda>k. k = 2) reloj_ej 7 None sesion_ej))) 2) = Some 7 \<and>
   committed (snd (crear_chat (\<lambda>k. k = 2) reloj_ej 7 None sesion_ej)) \<noteq> committed sesion_ej"
proof -
  let ?s = "snd (crear_chat (\<lambda>k. k = 2) reloj_ej 7 None sesion_ej)"
  have before: "chats (committed sesion_ej) 2 = None"
    by (simp add: sesion_ej_def db_ej_def)
  have res: "fst (crear_chat (\<lambda>k. k = 2) reloj_ej 7 None sesion_ej) = None"
    by (simp add: crear_chat_def crear_chat_try_def Let_def)
  have after: "map_option usuario_id (chats (committed ?s) 2) = Some 7"
    by (simp add: crear_chat_def crear_chat_try_def Let_def rollback_def commit_def
        chats_chat_put reloj_ej_def)
  have "chats (committed ?s) 2 \<noteq> chats (committed sesion_ej) 2"
    using before after by auto
  then have changed: "committed ?s \<noteq> committed sesion_ej"
    by auto
  from before res after changed show ?thesis by blast
qed

lemma renombrar_chat_ok:
  assumes "chat_query_first (pending s) cid uid = Some c" "\<not> bad 0" "\<not> bad 1"
  shows "renombrar_chat bad cid uid n s =
    (True, \<lparr>committed = chat_put cid (c\<lparr>nombre_chat := take 200 (strip n)\<rparr>) (pending s),
            pending = chat_put cid (c\<lparr>nombre_chat := take 200 (strip n)\<rparr>) (pending s)\<rparr>)"
  using assms by (simp add: renombrar_chat_def renombrar_chat_try_def Let_def commit_def)

lemma chat_put_twice: "chat_put cid c' (chat_put cid c d) = chat_put cid c' d"
  by (simp add: chat_put_def)

lemma query_after_put: "chat_query_first (chat_put cid c d) cid (usuario_id c) = Some c"
  by (simp add: chat_query_first_def chat_put_def)

lemma renombrar_chat_idem:
  assumes q: "chat_query_first (pending s) cid uid = Some c" and b: "\<not> bad 0" "\<not> bad 1"
  shows "renombrar_chat bad cid uid n (snd (renombrar_chat bad cid uid n s)) =
           renombrar_chat bad cid uid n s"
proof -
  let ?c = "c\<lparr>nombre_chat := take 200 (strip n)\<rparr>"
  let ?s = "\<lparr>committed = chat_put cid ?c (pending s), pending = chat_put cid ?c (pending s)\<rparr>"
  have u: "usuario_id ?c = uid" using q by (simp add: chat_query_first_Some)
  have q2: "chat_query_first (pending ?s) cid uid = Some ?c"
    using query_after_put [of cid ?c "pending s"] u by simp
  show ?thesis
    by (simp add: renombrar_chat_ok [OF q b] renombrar_chat_ok [OF q2 b] chat_put_twice)
qed

text \<open>
  C8, as stated, fails: a name longer than 200 characters is not always stored as its
  first 200 characters, because the name is stripped first. A space followed by 200
  letters \<open>a\<close> is stored as the 200 letters, while its first 200 characters are the
  space and 199 letters.
\<close>

theorem renombrar_chat_truncation_counterexample:
  "200 < length nombre_largo_ej \<and>
   map_option nombre_chat
     (chats (committed (snd (renombrar_chat no_faults 1 7 nombre_largo_ej sesion_ej))) 1) =
     Some (replicate 200 97) \<and>
   take 200 nombre_largo_ej = 32 # replicate 199 97 \<and>
   map_option nombre_chat
     (chats (committed (snd (renombrar_chat no_faults 1 7 nombre_largo_ej sesion_ej))) 1) \<noteq>
     Some (take 200 nombre_largo_ej)"
proof -
  have q: "chat_query_first (pending sesion_ej) 1 7 = Some chat_ej"
    by (simp add: chat_query_first_def sesion_ej_def db_ej_def chat_ej_def)
  have st: "strip nombre_largo_ej = replicate 200 97"
    by (simp add: nombre_largo_ej_def strip_def isspace_def)
  have tk: "take 200 nombre_largo_ej = 32 # replicate 199 97"
    by (simp add: nombre_largo_ej_def take_Cons')
  have stored: "map_option nombre_chat
     (chats (committed (snd (renombrar_chat no_faults 1 7 nombre_largo_ej sesion_ej))) 1) =
     Some (replicate 200 97)"
    using renombrar_chat_ok [OF q, of no_faults nombre_largo_ej]
    by (simp add: no_faults_def st chats_chat_put)
  have ne: "replicate 200 (97::nat) \<noteq> 32 # replicate 199 97"
  proof
    assume "replicate 200 (97::nat) = 32 # replicate 199 97"
    then have "hd (replicate 200 (97::nat)) = hd (32 # replicate 199 97)" by simp
    then show False by simp
  qed
  have len: "200 < length nombre_largo_ej"
    by (simp add: nombre_largo_ej_def)
  show ?thesis
    unfolding stored tk using len ne by simp
qed

text \<open>
  C8, amended. For every chat owned by the requesting user and every new name, when no
  persistence call raises, \<open>renombrar_chat\<close> stores the name with the surrounding
  whitespace stripped and then cut to its first 200 characters: the stored name has at
  most 200 characters, exactly 200 when the stripped name is longer than that, and it
  is the first 200 characters of the given name when that has no surrounding
  whitespace. Renaming a second time with the same name changes nothing.
\<close>

theorem renombrar_chat_spec:
  "chats (pending s) cid = Some c \<and> usuario_id c = uid \<and> \<not> bad 0 \<and> \<not> bad 1 \<longrightarrow>
     fst (renombrar_chat bad cid uid n s) = True \<and>
     chats (committed (snd (renombrar_chat bad cid uid n s))) cid =
       Some (c\<lparr>nombre_chat := take 200 (strip n)\<rparr>) \<and>
     length (take 200 (strip n)) \<le> 200 \<and>
     (200 < length (strip n) \<longrightarrow> length (take 200 (strip n)) = 200) \<and>
     (strip n = n \<longrightarrow> take 200 (strip n) = take 200 n) \<and>
     renombrar_chat bad cid uid n (snd (renombrar_chat bad cid uid n s)) =
       renombrar_chat bad cid uid n s"
proof (intro impI)
  assume h: "chats (pending s) cid = Some c \<and> usuario_id c = uid \<and> \<not> bad 0 \<and> \<not> bad 1"
  then have q: "chat_query_first (pending s) cid uid = Some c" and b: "\<not> bad 0" "\<not> bad 1"
    by (simp_all add: chat_query_first_Some)
  note r = renombrar_chat_ok [OF q b]
  have "fst (renombrar_chat bad cid uid n s) = True" by (simp add: r)
  moreover have "chats (committed (snd (renombrar_chat bad cid uid n s))) cid =
       Some (c\<lparr>nombre_chat := take 200 (strip n)\<rparr>)"
    by (simp add: r chats_chat_put)
  moreover have "length (take 200 (strip n)) \<le> 200" by simp
  moreover have "200 < length (strip n) \<longrightarrow> length (take 200 (strip n)) = 200" by simp
  moreover have "strip n = n \<longrightarrow> take 200 (strip n) = take 200 n" by simp
  moreover note renombrar_chat_idem [OF q b, of n]
  ultimately show "fst (renombrar_chat bad cid uid n s) = True \<and>
     chats (committed (snd (renombrar_chat bad cid uid n s))) cid =
       Some (c\<lparr>nombre_chat := take 200 (strip n)\<rparr>) \<and>
     length (take 200 (strip n)) \<le> 200 \<and>
     (200 < length (strip n) \<longrightarrow> length (take 200 (strip n)) = 200) \<and>
     (strip n = n \<longrightarrow> take 200 (strip n) = take 200 n) \<and>
     renombrar_chat bad cid uid n (snd (renombrar_chat bad cid uid n s)) =
       renombrar_chat bad cid uid n s"
    by blast
qed

theorem renombrar_chat_spec_witness:
  "fst (renombrar_chat no_faults 1 7 (lit ''  Tareas '') sesion_ej) = True \<and>
   chats (committed (snd (renombrar_chat no_faults 1 7 (lit ''  Tareas '') sesion_ej))) 1 =
     Some (chat_ej\<lparr>nombre_chat := lit ''Tareas''\<rparr>)"
proof -
  have h: "chats (pending sesion_ej) 1 = Some chat_ej \<and> usuario_id chat_ej = 7 \<and>
           \<not> no_faults 0 \<and> \<not> no_faults 1"
    by (simp add: sesion_ej_def db_ej_def chat_ej_def no_faults_def)
  have st: "take 200 (strip (lit ''  Tareas '')) = lit ''Tareas''"
    by (simp add: strip_def isspace_def lit_def)
  from renombrar_chat_spec [where s = sesion_ej and cid = 1 and c = chat_ej and uid = 7
      and bad = no_faults and n = "lit ''  Tareas ''"] h
  have "fst (renombrar_chat no_faults 1 7 (lit ''  Tareas '') sesion_ej) = True \<and>
     chats (committed (snd (renombrar_chat no_faults 1 7 (lit ''  Tareas '') sesion_ej))) 1 =
       Some (chat_ej\<lparr>nombre_chat := take 200 (strip (lit ''  Tareas ''))\<rparr>)"
    by blast
  then show ?thesis by (simp add: st)
qed

lemma crear_chat_ok:
  assumes "\<not> bad 0" "\<not> bad 1" "\<not> bad 2"
  shows "crear_chat bad r uid nombre s =
    (Some (nuevo_id r,
       \<lparr>nombre_chat = (case nombre of None \<Rightarrow> nombre_por_defecto r
                        | Some n \<Rightarrow> if n = [] then nombre_por_defecto r else n),
        usuario_id = uid, fecha_creacion = utcnow_1 r, fecha_ultimo_mensaje = utcnow_2 r\<rparr>),
     \<lparr>committed = chat_put (nuevo_id r)
        \<lparr>nombre_chat = (case nombre of None \<Rightarrow> nombre_por_defecto r
                        | Some n \<Rightarrow> if n = [] then nombre_por_defecto r else n),
         usuario_id = uid, fecha_creacion = utcnow_1 r, fecha_ultimo_mensaje = utcnow_2 r\<rparr>
        (pending s),
      pending = chat_put (nuevo_id r)
        \<lparr>nombre_chat = (case nombre of None \<Rightarrow> nombre_por_defecto r
                        | Some n \<Rightarrow> if n = [] then nombre_por_defecto r else n),
         usuario_id = uid, fecha_creacion = utcnow_1 r, fecha_ultimo_mensaje = utcnow_2 r\<rparr>
        (pending s)\<rparr>)"
  using assms by (simp add: crear_chat_def crear_chat_try_def Let_def commit_def)

lemma strftime_t_ej: "strftime_dmY_HM t_ej = lit ''04/11/2026 09:05''"
  by (simp add: strftime_dmY_HM_def t_ej_def pad2_def pad4_def lit_def digits.simps)

lemma length_digits_1: "n < 10 \<Longrightarrow> length (digits n) = 1"
  by (simp add: digits.simps)

lemma length_digits_2: "10 \<le> n \<Longrightarrow> n < 100 \<Longrightarrow> length (digits n) = 2"
  by (subst digits.simps) (simp add: length_digits_1)

lemma length_digits_3: "100 \<le> n \<Longrightarrow> n < 1000 \<Longrightarrow> length (digits n) = 3"
  by (subst digits.simps) (simp add: length_digits_2)

lemma length_digits_4: "1000 \<le> n \<Longrightarrow> n < 10000 \<Longrightarrow> length (digits n) = 4"
  by (subst digits.simps) (simp add: length_digits_3)

lemma length_pad2: "n < 100 \<Longrightarrow> length (pad2 n) = 2"
  by (cases "n < 10") (simp_all add: pad2_def length_digits_1 length_digits_2)

lemma length_pad4: "n < 10000 \<Longrightarrow> length (pad4 n) = 4"
proof -
  assume n: "n < 10000"
  consider "n < 10" | "10 \<le> n \<and> n < 100" | "100 \<le> n \<and> n < 1000" | "1000 \<le> n \<and> n < 10000"
    using n by linarith
  then show ?thesis
    by cases (simp_all add: pad4_def length_digits_1 length_digits_2 length_digits_3
        length_digits_4)
qed

text \<open>
  The format is fixed: for a time whose fields have at most two digits (four for the
  year) the text has 16 characters, with the separators at fixed positions.
\<close>

lemma strftime_dmY_HM_shape:
  assumes "dt_day t < 100" "dt_month t < 100" "dt_year t < 10000" "dt_hour t < 100"
    "dt_minute t < 100"
  shows "length (strftime_dmY_HM t) = 16"
    and "strftime_dmY_HM t ! 2 = 47" and "strftime_dmY_HM t ! 5 = 47"
    and "strftime_dmY_HM t ! 10 = 32" and "strftime_dmY_HM t ! 13 = 58"
  using assms
  by (simp_all add: strftime_dmY_HM_def length_pad2 length_pad4 lit_def nth_append)

text \<open>
  C9, as stated, fails for the empty string: \<open>crear_chat\<close> called with the explicit
  name \<open>''\<close> does not store it verbatim, it stores the timestamped default name.
\<close>

theorem crear_chat_empty_name_counterexample:
  "map_option (nombre_chat \<circ> snd) (fst (crear_chat no_faults reloj_ej 7 (Some []) sesion_ej)) =
     Some (lit ''Chat 04/11/2026 09:05'') \<and>
   map_option (nombre_chat \<circ> snd) (fst (crear_chat no_faults reloj_ej 7 (Some []) sesion_ej)) \<noteq>
     Some []"
proof -
  have d: "nombre_por_defecto reloj_ej = lit ''Chat 04/11/2026 09:05''"
    by (simp add: nombre_por_defecto_def reloj_ej_def strftime_t_ej) (simp add: lit_def)
  have stored: "map_option (nombre_chat \<circ> snd)
          (fst (crear_chat no_faults reloj_ej 7 (Some []) sesion_ej)) =
        Some (lit ''Chat 04/11/2026 09:05'')"
    using crear_chat_ok [of no_faults reloj_ej 7 "Some []" sesion_ej]
    by (simp add: no_faults_def d)
  have ne: "lit ''Chat 04/11/2026 09:05'' \<noteq> []"
    by (simp add: lit_def)
  show ?thesis
    unfolding stored using ne by simp
qed

text \<open>
  C9, amended. For every user id, when no persistence call raises (\<open>add\<close>, \<open>commit\<close>
  and the read of \<open>chat.id\<close> after it), \<open>crear_chat\<close> persists and returns a chat of
  that user under the key given by the database.
  Called with no name or with the empty string, its name is \<open>Chat\<close>, a space, and the
  local time in the format day/month/year hour:minute; called with a non-empty name,
  it stores that name verbatim.
\<close>

theorem crear_chat_spec:
  "\<not> bad 0 \<and> \<not> bad 1 \<and> \<not> bad 2 \<longrightarrow>
     map_option fst (fst (crear_chat bad r uid nombre s)) = Some (nuevo_id r) \<and>
     chats (committed (snd (crear_chat bad r uid nombre s))) (nuevo_id r) =
       map_option snd (fst (crear_chat bad r uid nombre s)) \<and>
     map_option (usuario_id \<circ> snd) (fst (crear_chat bad r uid nombre s)) = Some uid \<and>
     (nombre = None \<or> nombre = Some [] \<longrightarrow>
        map_option (nombre_chat \<circ> snd) (fst (crear_chat bad r uid nombre s)) =
          Some (lit ''Chat '' @ strftime_dmY_HM (now_local r))) \<and>
     (\<forall>n. nombre = Some n \<and> n \<noteq> [] \<longrightarrow>
        map_option (nombre_chat \<circ> snd) (fst (crear_chat bad r uid nombre s)) = Some n)"
proof (intro impI)
  assume "\<not> bad 0 \<and> \<not> bad 1 \<and> \<not> bad 2"
  then have b: "\<not> bad 0" "\<not> bad 1" "\<not> bad 2" by simp_all
  note c = crear_chat_ok [OF b, of r uid nombre s]
  show "map_option fst (fst (crear_chat bad r uid nombre s)) = Some (nuevo_id r) \<and>
     chats (committed (snd (crear_chat bad r uid nombre s))) (nuevo_id r) =
       map_option snd (fst (crear_chat bad r uid nombre s)) \<and>
     map_option (usuario_id \<circ> snd) (fst (crear_chat bad r uid nombre s)) = Some uid \<and>
     (nombre = None \<or> nombre = Some [] \<longrightarrow>
        map_option (nombre_chat \<circ> snd) (fst (crear_chat bad r uid nombre s)) =
          Some (lit ''Chat '' @ strftime_dmY_HM (now_local r))) \<and>
     (\<forall>n. nombre = Some n \<and> n \<noteq> [] \<longrightarrow>
        map_option (nombre_chat \<circ> snd) (fst (crear_chat bad r uid nombre s)) = Some n)"
    unfolding c by (auto simp: chats_chat_put nombre_por_defecto_def)
qed

theorem crear_chat_spec_witness:
  "map_option (nombre_chat \<circ> snd) (fst (crear_chat no_faults reloj_ej 7 None sesion_ej)) =
     Some (lit ''Chat 04/11/2026 09:05'') \<and>
   map_option (nombre_chat \<circ> snd)
     (fst (crear_chat no_faults reloj_ej 7 (Some (lit ''Tareas'')) sesion_ej)) =
     Some (lit ''Tareas'')"
proof -
  have nb: "\<not> no_faults 0 \<and> \<not> no_faults 1 \<and> \<not> no_faults 2" by (simp add: no_faults_def)
  have d: "lit ''Chat '' @ strftime_dmY_HM (now_local reloj_ej) = lit ''Chat 04/11/2026 09:05''"
    by (simp add: reloj_ej_def strftime_t_ej) (simp add: lit_def)
  have ne: "lit ''Tareas'' \<noteq> []" by (simp add: lit_def)
  from crear_chat_spec [where bad = no_faults and r = reloj_ej and uid = 7 and nombre = None
      and s = sesion_ej] nb
  have "map_option (nombre_chat \<circ> snd) (fst (crear_chat no_faults reloj_ej 7 None sesion_ej)) =
          Some (lit ''Chat '' @ strftime_dmY_HM (now_local reloj_ej))"
    by blast
  then have a: "map_option (nombre_chat \<circ> snd)
      (fst (crear_chat no_faults reloj_ej 7 None sesion_ej)) = Some (lit ''Chat 04/11/2026 09:05'')"
    by (simp only: d)
  from crear_chat_spec [where bad = no_faults and r = reloj_ej and uid = 7
      and nombre = "Some (lit ''Tareas'')" and s = sesion_ej] nb ne
  have b: "map_option (nombre_chat \<circ> snd)
     (fst (crear_chat no_faults reloj_ej 7 (Some (lit ''Tareas'')) sesion_ej)) =
     Some (lit ''Tareas'')"
    by blast
  from a b show ?thesis by blast
qed

subsection \<open>The connection to the inference API\<close>

lemma initialize_groq_fresh:
  assumes "client self = None"
  shows "fst (initialize_groq w self) = validation_ok w"
    and "(client (snd (initialize_groq w self)) \<noteq> None) = validation_ok w"
    and "(initialization_error (snd (initialize_groq w self)) = None) = validation_ok w"
  using assms
  by (auto simp: initialize_groq_def validation_ok_def initialize_handler_def Let_def
      split: option.splits sum.splits)

text \<open>
  \<open>_initialize_groq\<close> on its own does not reset the client on the path where the key is
  missing; its two callers do so before calling it.
\<close>

lemma initialize_groq_keeps_client:
  "env_api_key w = None \<Longrightarrow> client (snd (initialize_groq w self)) = client self"
  by (simp add: initialize_groq_def)

lemma validation_ok_key:
  "env_api_key w = None \<or> env_api_key w = Some [] \<Longrightarrow> \<not> validation_ok w"
  by (auto simp: validation_ok_def)

lemma reached_invariant:
  "reached w self \<Longrightarrow>
     (client self \<noteq> None) = validation_ok w \<and>
     (initialization_error self = None) = validation_ok w"
proof (induction rule: reached.induct)
  case (constructed w)
  show ?case
    unfolding init_def
    using initialize_groq_fresh(2,3) [of "\<lparr>client = None, initialization_error = None\<rparr>" w]
    by simp
next
  case (reinitialized w0 self w)
  show ?case
    unfolding reinitialize_def
    using initialize_groq_fresh(2,3)
      [of "self\<lparr>client := None, initialization_error := None\<rparr>" w]
    by simp
qed

text \<open>
  C10. After the construction and after every \<open>reinitialize\<close>, with \<open>w\<close> what that
  initialization read from outside: \<open>is_available\<close> is true if and only if the
  validation of that initialization succeeded (key present and plausible, client
  constructed, test completion with a choice); it is false when the API key is absent
  or empty; it equals \<open>client is not None\<close>; a client that is not \<open>None\<close> implies that
  the validation succeeded and that \<open>initialization_error\<close> is \<open>None\<close>; and the value
  returned by a \<open>reinitialize\<close> is the availability after it.
\<close>

theorem is_available_spec:
  "reached w self \<Longrightarrow>
     (is_available self \<longleftrightarrow> validation_ok w) \<and>
     (is_available self \<longleftrightarrow> client self \<noteq> None) \<and>
     (env_api_key w = None \<or> env_api_key w = Some [] \<longrightarrow> \<not> is_available self) \<and>
     (client self \<noteq> None \<longrightarrow> validation_ok w \<and> initialization_error self = None) \<and>
     fst (reinitialize w' self) = is_available (snd (reinitialize w' self))"
proof -
  assume r: "reached w self"
  note inv = reached_invariant [OF r]
  have a: "is_available self \<longleftrightarrow> validation_ok w"
    using inv by (simp add: is_available_def)
  have k: "env_api_key w = None \<or> env_api_key w = Some [] \<longrightarrow> \<not> is_available self"
    using a validation_ok_key by blast
  have re: "fst (reinitialize w' self) = is_available (snd (reinitialize w' self))"
    unfolding reinitialize_def is_available_def
    using initialize_groq_fresh(1,2)
      [of "self\<lparr>client := None, initialization_error := None\<rparr>" w']
    by simp
  show ?thesis
    using a k re inv by (simp add: is_available_def)
qed

theorem is_available_spec_witness:
  "is_available (init mundo_ok) \<and>
   \<not> is_available (snd (reinitialize mundo_sin_clave (init mundo_ok)))"
proof -
  have ok: "validation_ok mundo_ok"
    by (simp add: validation_ok_def mundo_ok_def strip_def isspace_def lit_def)
  have r1: "reached mundo_ok (init mundo_ok)"
    by (rule reached.constructed)
  have r2: "reached mundo_sin_clave (snd (reinitialize mundo_sin_clave (init mundo_ok)))"
    using r1 by (rule reached.reinitialized)
  have nk: "env_api_key mundo_sin_clave = None"
    by (simp add: mundo_sin_clave_def)
  from is_available_spec [OF r1] ok have a: "is_available (init mundo_ok)"
    by blast
  from is_available_spec [OF r2] nk
  have b: "\<not> is_available (snd (reinitialize mundo_sin_clave (init mundo_ok)))"
    by blast
  from a b show ?thesis by blast
qed

subsection \<open>The system prompt\<close>

lemma item_simps [simp]:
  "item ((k, v) # d) k' = (if k = k' then Inr v else item d k')"
  "item [] k' = Inl KeyError"
  by (simp_all add: item_def)

lemma dict_get_simps [simp]:
  "dict_get ((k, v) # d) k' dflt = (if k = k' then v else dict_get d k' dflt)"
  "dict_get [] k' dflt = dflt"
  by (simp_all add: dict_get_def)

lemma entry_profesor_same:
  "mismo_salvo_contenido a b \<Longrightarrow> entry_profesor a = entry_profesor b"
  by (simp add: mismo_salvo_contenido_def entry_profesor_def)

lemma map_entry_profesor_same:
  "list_all2 mismo_salvo_contenido xs ys \<Longrightarrow> map entry_profesor xs = map entry_profesor ys"
  by (induction rule: list_all2_induct) (simp_all add: entry_profesor_same)

lemma get_archivos_data_profesor_same:
  assumes rol: "u_rol u = Attr (Some PROFESOR)"
    and q: "\<forall>i. rel_sum (=) (list_all2 mismo_salvo_contenido) (archivos_profesor env i) (q i)"
  shows "get_archivos_data (env\<lparr>archivos_profesor := q\<rparr>) u = get_archivos_data env u"
proof (cases "u_id u")
  case NoAttr
  then show ?thesis
    by (simp add: get_archivos_data_def es_profesor_def rol log_usuario_id_def)
next
  case (Attr i)
  from q have r: "rel_sum (=) (list_all2 mismo_salvo_contenido) (archivos_profesor env i) (q i)"
    by blast
  show ?thesis
  proof (cases "archivos_profesor env i")
    case (Inl e)
    with r have "q i = Inl e"
      by (cases "q i") simp_all
    with Inl show ?thesis
      by (simp add: get_archivos_data_def es_profesor_def rol log_usuario_id_def Attr)
  next
    case (Inr xs)
    with r obtain ys where ys: "q i = Inr ys" "list_all2 mismo_salvo_contenido xs ys"
      by (cases "q i") simp_all
    with Inr show ?thesis
      by (simp add: get_archivos_data_def es_profesor_def rol log_usuario_id_def Attr
          map_entry_profesor_same)
  qed
qed

lemma materias_de_cursos_upd [simp]:
  "materias_de_cursos (env\<lparr>archivos_profesor := q\<rparr>) cs = materias_de_cursos env cs"
  by (induction cs) simp_all

lemma get_materias_upd [simp]:
  "get_materias_profesor (env\<lparr>archivos_profesor := q\<rparr>) u = get_materias_profesor env u"
  "get_materias_alumno (env\<lparr>archivos_profesor := q\<rparr>) u = get_materias_alumno env u"
  "get_env_vars (env\<lparr>archivos_profesor := q\<rparr>) = get_env_vars env"
  by (simp_all add: get_materias_profesor_def get_materias_alumno_def get_env_vars_def
      split: attr.splits)

lemma prompt_parts_profesor_same:
  assumes rol: "u_rol u = Attr (Some PROFESOR)"
    and q: "\<forall>i. rel_sum (=) (list_all2 mismo_salvo_contenido) (archivos_profesor env i) (q i)"
  shows "prompt_parts (env\<lparr>archivos_profesor := q\<rparr>) u = prompt_parts env u"
  by (simp add: prompt_parts_def get_archivos_data_profesor_same [OF rol q]
      cong: if_cong option.case_cong)

lemma keys_entry_profesor: "map fst (entry_profesor a) = [''tema'', ''materia'', ''nombre_archivo'']"
  by (simp add: entry_profesor_def Let_def)

lemma keys_entry_alumno:
  "map fst (entry_alumno a) = [''tema'', ''notas'', ''instrucciones'', ''texto'', ''materia'', ''curso'']"
  by (simp add: entry_alumno_def Let_def)

lemma get_archivos_data_profesor_cases:
  assumes "u_rol u = Attr (Some PROFESOR)" "get_archivos_data env u = Inr es"
  shows "es = [] \<or> (\<exists>archivos. es = map entry_profesor archivos)"
  using assms
  by (cases "u_id u"; cases "archivos_profesor env (case u_id u of Attr i \<Rightarrow> i | NoAttr \<Rightarrow> 0)")
     (auto simp: get_archivos_data_def es_profesor_def log_usuario_id_def)

lemma get_archivos_data_alumno_cases:
  assumes "u_rol u = Attr r" "r \<noteq> Some PROFESOR" "get_archivos_data env u = Inr es"
  shows "es = [] \<or> (\<exists>archivos. es = map entry_alumno archivos)"
proof -
  have "es = [] \<or> (\<exists>cid archivos. archivos_curso env cid = Inr archivos \<and> es = map entry_alumno archivos)"
    using assms
    by (auto simp: get_archivos_data_def es_profesor_def log_usuario_id_def bind_def try_except_def
        split: attr.splits option.splits if_splits sum.splits)
  then show ?thesis by blast
qed


lemma env_default_unused:
  "k \<in> {''NOMBRE'', ''LIMITACIONES'', ''ROL_IA_ALUMNOS'', ''ROL_IA_PROFESORES'', ''EDAD_REGULACION''}
   \<Longrightarrow> dict_get (get_env_vars env) k dflt = getenv env k"
  by (auto simp: get_env_vars_def)

lemma archivos_ej: "get_archivos_data entorno_ej alumna_ej = Inr [entry_alumno archivo_ej]"
  by (simp add: get_archivos_data_def es_profesor_def entorno_ej_def alumna_ej_def)

lemma edad_ej: "calculate_age hoy_ej alumna_ej = Inr 15"
  by (simp add: calculate_age_def alumna_ej_def hoy_ej_def tuple_less_def)

lemma digits_small: "n < 10 \<Longrightarrow> digits n = [48 + n]"
  by (simp add: digits.simps)

lemma str_15: "str_int 15 = lit ''15''"
  by (simp add: str_int_def digits.simps lit_def)

lemma head_ej:
  "prompt_head (get_env_vars entorno_ej) (dict_get (get_env_vars entorno_ej) ''ROL_IA_ALUMNOS'' d) (Some (lit ''Ana'')) (Some (lit ''Ruiz''))
     (lit ''alumno'') 15 institucion_default =
   Inr [lit ''Eres None, None.'',
        lit ''Tus limitaciones son: None'',
        lit ''Ahora mismo est'' @ [225] @ lit ''s hablando con:'',
        lit ''Ana Ruiz.'',
        lit ''Su rol es: alumno.'',
        lit ''Su edad es: 15 a'' @ [241] @ lit ''os.'',
        lit ''Regulaci'' @ [243] @ lit ''n de edad: None a'' @ [241] @ lit ''os.'',
        lit ''Informaci'' @ [243] @ lit ''n de la instituci'' @ [243] @ lit ''n:'',
        lit ''Nombre: No especificado'',
        lit ''Valores institucionales: No especificado'',
        lit ''Metodolog'' @ [237] @ lit ''a pedag'' @ [243] @ lit ''gica: No especificado'',
        lit ''Configuraci'' @ [243] @ lit ''n IA: Est'' @ [225] @ lit ''ndar'',
        []]"
  by (simp add: prompt_head_def get_env_vars_def entorno_ej_def institucion_default_def fmt_def str_15)
   (simp add: lit_def)

lemma parts_ej:
  "prompt_parts entorno_ej alumna_ej =
   Inr [lit ''Eres None, None.'',
        lit ''Tus limitaciones son: None'',
        lit ''Ahora mismo est'' @ [225] @ lit ''s hablando con:'',
        lit ''Ana Ruiz.'',
        lit ''Su rol es: alumno.'',
        lit ''Su edad es: 15 a'' @ [241] @ lit ''os.'',
        lit ''Regulaci'' @ [243] @ lit ''n de edad: None a'' @ [241] @ lit ''os.'',
        lit ''Informaci'' @ [243] @ lit ''n de la instituci'' @ [243] @ lit ''n:'',
        lit ''Nombre: No especificado'',
        lit ''Valores institucionales: No especificado'',
        lit ''Metodolog'' @ [237] @ lit ''a pedag'' @ [243] @ lit ''gica: No especificado'',
        lit ''Configuraci'' @ [243] @ lit ''n IA: Est'' @ [225] @ lit ''ndar'',
        [],
        lit ''Materias en las que est'' @ [225] @ lit '' inscrito:'',
        [],
        lit ''Archivos y contenidos disponibles del estudiante:'',
        lit ''Archivos cargados por el profesor.'',
        lit ''Archivo 1:'',
        lit ''- Tema: Fracciones'',
        lit ''- Materia: Sin materia'',
        lit ''- Notas: Sin notas adicionales'',
        lit ''- Instrucciones de ense'' @ [241] @ lit ''anza: Sin instrucciones espec'' @ [237] @ lit ''ficas'',
        lit ''- Contenido: Hola...'']"
proof -
  have u: "u_nombre alumna_ej = Attr (Some (lit ''Ana''))" "u_apellido alumna_ej = Attr (Some (lit ''Ruiz''))"
    "u_rol alumna_ej = Attr (Some ALUMNO)" "u_get_institucion alumna_ej = NoAttr"
    "u_cursos alumna_ej = Attr [\<lparr>curso_id = 3, curso_nombre = Some (lit ''3A'')\<rparr>]"
    by (simp_all add: alumna_ej_def)
  have e: "today entorno_ej = hoy_ej" "rol_value entorno_ej ALUMNO = lit ''alumno''"
     "materias_curso entorno_ej = (\<lambda>i. Inr [])"
    by (simp_all add: entorno_ej_def)
  have m: "get_materias_alumno entorno_ej alumna_ej = []"
    by (simp add: get_materias_alumno_def u e)
  have i: "get_institucion_data alumna_ej = institucion_default"
    by (simp add: get_institucion_data_def u)
  have b: "archivos_block False [entry_alumno archivo_ej] = 
     Inr [lit ''Archivos cargados por el profesor.'',
        lit ''Archivo 1:'',
        lit ''- Tema: Fracciones'',
        lit ''- Materia: Sin materia'',
        lit ''- Notas: Sin notas adicionales'',
        lit ''- Instrucciones de ense'' @ [241] @ lit ''anza: Sin instrucciones espec'' @ [237] @ lit ''ficas'',
        lit ''- Contenido: Hola...'']"
    by (simp add: archivos_block_def archivo_lines_alumno_def entry_alumno_def archivo_ej_def
        or_default_def texto_procesado_def digits_small)
       (simp add: lit_def)
  show ?thesis
    by (simp add: prompt_parts_def Let_def u e m i b archivos_ej edad_ej es_profesor_def head_ej
        getattr_default_def)
       (simp add: lit_def)
qed


lemma texto_procesado_long:
  "2000 < length t \<Longrightarrow> texto_procesado (Some t) = take 2000 t @ lit ''...''"
  by (auto simp: texto_procesado_def)

lemma texto_procesado_short:
  "t \<noteq> [] \<Longrightarrow> length t \<le> 2000 \<Longrightarrow> texto_procesado (Some t) = t"
  by (simp add: texto_procesado_def)

lemma archivo_lines_alumno_entry:
  "archivo_lines_alumno (idx, entry_alumno a) =
     Inr [lit ''Archivos cargados por el profesor.'',
          lit ''Archivo '' @ digits idx @ lit '':'',
          lit ''- Tema: '' @ or_default (nombre_tema a) (lit ''Sin tema''),
          lit ''- Materia: '' @
            (case archivo_materia a of
               None \<Rightarrow> lit ''Sin materia''
             | Some m \<Rightarrow> or_default (materia_nombre m) (lit ''Sin materia'')),
          lit ''- Notas: '' @ or_default (notas_adicionales a) (lit ''Sin notas adicionales''),
          lit ''- Instrucciones de ense'' @ [241] @ lit ''anza: '' @
            or_default (instrucciones_ensenanza a)
              (lit ''Sin instrucciones espec'' @ [237] @ lit ''ficas''),
          lit ''- Contenido: '' @ texto_procesado (texto_extraido a) @ lit ''...'']"
  by (simp add: archivo_lines_alumno_def entry_alumno_def Let_def)

lemma archivo_lines_profesor_entry:
  "archivo_lines_profesor (idx, entry_profesor a) =
     Inr [[],
          lit ''Archivo '' @ digits idx @ lit '':'',
          lit ''- Tema: '' @ or_default (nombre_tema a) (lit ''Sin tema''),
          lit ''- Materia: '' @
            (case archivo_materia a of
               None \<Rightarrow> lit ''Sin materia''
             | Some m \<Rightarrow> or_default (materia_nombre m) (lit ''Sin materia'')),
          lit ''- Nombre: '' @
            (case archivo_path a of
               None \<Rightarrow> lit ''Sin nombre''
             | Some p \<Rightarrow> if p = [] then lit ''Sin nombre'' else split_last p)]"
  by (simp add: archivo_lines_profesor_def entry_profesor_def Let_def)

lemma calculate_age_total:
  "u_rol u = Attr r \<Longrightarrow> \<exists>a. calculate_age hoy u = Inr a"
  by (auto simp: calculate_age_def edad_por_rol_Attr Let_def split: attr.splits option.splits)

lemma map_err_total:
  "(\<And>x. x \<in> set xs \<Longrightarrow> \<exists>y. f x = Inr y) \<Longrightarrow> \<exists>ys. map_err f xs = Inr ys"
proof (induction xs)
  case Nil
  show ?case by simp
next
  case (Cons x xs)
  then obtain y where y: "f x = Inr y" by auto
  from Cons obtain ys where "map_err f xs = Inr ys" by auto
  with y show ?case by simp
qed

lemma materia_line_total: "\<exists>l. materia_line (materia_dict m c) = Inr l"
  by (simp add: materia_line_def materia_dict_def)

lemma materias_de_cursos_lines:
  "materias_de_cursos env cs = Inr ds \<Longrightarrow> \<forall>d \<in> set ds. \<exists>l. materia_line d = Inr l"
proof (induction cs arbitrary: ds)
  case Nil
  then show ?case by simp
next
  case (Cons c cs)
  then show ?case
    by (auto simp: bind_def materia_line_total split: sum.splits)
qed

lemma materias_info_lines:
  "\<exists>ls. map_err materia_line
          (if p then get_materias_profesor env u else get_materias_alumno env u) = Inr ls"
proof (rule map_err_total)
  fix d
  assume d: "d \<in> set (if p then get_materias_profesor env u else get_materias_alumno env u)"
  show "\<exists>y. materia_line d = Inr y"
  proof (cases p)
    case True
    with d show ?thesis
      by (auto simp: get_materias_profesor_def materia_line_total split: sum.splits)
  next
    case False
    with d show ?thesis
      by (auto simp: get_materias_alumno_def split: attr.splits sum.splits
          dest!: materias_de_cursos_lines [OF sym])
  qed
qed

lemma prompt_head_total:
  "\<exists>h. prompt_head ev ria n a ru e (get_institucion_data u) = Inr h"
  by (auto simp: prompt_head_def get_institucion_data_def institucion_default_def
      split: attr.splits sum.splits option.splits)

lemma archivos_block_total:
  assumes "es = [] \<or> (\<exists>xs. es = map (if p then entry_profesor else entry_alumno) xs)"
  shows "\<exists>b. archivos_block p es = Inr b"
proof (cases "es = []")
  case True
  then show ?thesis by (simp add: archivos_block_def)
next
  case False
  with assms obtain xs where xs: "es = map (if p then entry_profesor else entry_alumno) xs"
    by blast
  have "\<exists>bs. map_err (if p then archivo_lines_profesor else archivo_lines_alumno)
                (enumerate 1 es) = Inr bs"
  proof (rule map_err_total)
    fix x
    assume "x \<in> set (enumerate 1 es)"
    then have "fst x - 1 < length xs" and "snd x = es ! (fst x - 1)"
      by (auto simp: in_set_enumerate_eq xs)
    then have "snd x = (if p then entry_profesor else entry_alumno) (xs ! (fst x - 1))"
      by (simp add: xs)
    then have "x = (fst x, (if p then entry_profesor else entry_alumno) (xs ! (fst x - 1)))"
      by (metis prod.collapse)
    then obtain idx a where "x = (idx, (if p then entry_profesor else entry_alumno) a)"
      by blast
    then show "\<exists>y. (if p then archivo_lines_profesor else archivo_lines_alumno) x = Inr y"
      by (simp add: archivo_lines_profesor_def archivo_lines_alumno_def entry_profesor_def
          entry_alumno_def Let_def)
  qed
  with False show ?thesis
    by (auto simp: archivos_block_def)
qed

lemma get_archivos_data_total:
  assumes "u_rol u = Attr r" "u_id u = Attr i"
  shows "\<exists>es. get_archivos_data env u = Inr es \<and>
     (es = [] \<or> (\<exists>xs. es = map (if r = Some PROFESOR then entry_profesor else entry_alumno) xs))"
  using assms
  by (auto simp: get_archivos_data_def es_profesor_def log_usuario_id_def bind_def try_except_def
      split: attr.splits option.splits sum.splits)

text \<open>
  When the attributes \<open>nombre\<close>, \<open>rol\<close> and \<open>id\<close> of the user can be read, the \<open>try\<close>
  block of \<open>_build_system_prompt\<close> does not raise, whatever the queries and the
  institution lookup do: their exceptions are absorbed where they occur, and every key
  the prompt reads is in the dictionaries built before.
\<close>

lemma prompt_parts_total:
  assumes n: "u_nombre u = Attr n" and r: "u_rol u = Attr r" and i: "u_id u = Attr i"
  shows "\<exists>parts. prompt_parts env u = Inr parts"
proof -
  obtain a where a: "calculate_age (today env) u = Inr a"
    using calculate_age_total [OF r] by blast
  obtain es where es: "get_archivos_data env u = Inr es"
    and shape: "es = [] \<or>
      (\<exists>xs. es = map (if r = Some PROFESOR then entry_profesor else entry_alumno) xs)"
    using get_archivos_data_total [OF r i] by blast
  obtain b where b: "archivos_block (r = Some PROFESOR) es = Inr b"
    using archivos_block_total [OF shape] by blast
  obtain ls where ls: "map_err materia_line
      (if r = Some PROFESOR then get_materias_profesor env u else get_materias_alumno env u) = Inr ls"
    using materias_info_lines by blast
  obtain h where h: "prompt_head (get_env_vars env)
       (if r = Some PROFESOR
             then dict_get (get_env_vars env) ''ROL_IA_PROFESORES''
                    (Some (lit ''un asistente educativo para profesores''))
             else dict_get (get_env_vars env) ''ROL_IA_ALUMNOS''
                    (Some (lit ''un asistente educativo para estudiantes'')))
       n (getattr_default (u_apellido u) (Some []))
       (case r of Some x \<Rightarrow> rol_value env x | None \<Rightarrow> lit ''None'') a
       (get_institucion_data u) = Inr h"
    using prompt_head_total by blast
  show ?thesis
    by (simp add: prompt_parts_def Let_def n r a es es_profesor_def h ls b)
qed

text \<open>
  C2, as stated, fails: for a user value without the attribute \<open>rol\<close> the \<open>try\<close> block
  raises, and the handler, which reads \<open>usuario.rol\<close> for the fallback text, raises
  again, so \<open>_build_system_prompt\<close> raises \<open>AttributeError\<close>.
\<close>

theorem build_system_prompt_raises_counterexample:
  "build_system_prompt entorno_ej (alumna_ej\<lparr>u_rol := NoAttr\<rparr>) = Inl AttributeError"
  by (simp add: build_system_prompt_def prompt_parts_def es_profesor_def alumna_ej_def Let_def)

text \<open>
  C2, amended. For every user value whose attribute \<open>rol\<close> can be read, whatever else
  is missing from it and whatever the queries do, \<open>_build_system_prompt\<close> does not
  raise: it returns the joined prompt lines when the \<open>try\<close> block succeeds, and when
  the block raises it returns the fallback text, with the noun \<open>profesor\<close> for a teacher
  and \<open>estudiante\<close> otherwise.
\<close>

theorem build_system_prompt_spec:
  "u_rol u = Attr r \<longrightarrow>
     (\<exists>txt. build_system_prompt env u = Inr txt) \<and>
     (\<forall>parts. prompt_parts env u = Inr parts \<longrightarrow>
        build_system_prompt env u = Inr (join_nl parts)) \<and>
     (\<forall>e. prompt_parts env u = Inl e \<longrightarrow>
        build_system_prompt env u =
          Inr (lit ''Eres un asistente educativo especializado para ''
               @ (if r = Some PROFESOR then lit ''profesor'' else lit ''estudiante'')
               @ lit ''s. Ayuda de manera apropiada y educativa.''))"
proof
  assume r: "u_rol u = Attr r"
  have p: "es_profesor u = Inr (r = Some PROFESOR)"
    by (simp add: es_profesor_def r)
  show "(\<exists>txt. build_system_prompt env u = Inr txt) \<and>
     (\<forall>parts. prompt_parts env u = Inr parts \<longrightarrow>
        build_system_prompt env u = Inr (join_nl parts)) \<and>
     (\<forall>e. prompt_parts env u = Inl e \<longrightarrow>
        build_system_prompt env u =
          Inr (lit ''Eres un asistente educativo especializado para ''
               @ (if r = Some PROFESOR then lit ''profesor'' else lit ''estudiante'')
               @ lit ''s. Ayuda de manera apropiada y educativa.''))"
  proof (cases "prompt_parts env u")
    case (Inl e)
    then show ?thesis
      by (simp add: build_system_prompt_def p prompt_fallback_def)
  next
    case (Inr parts)
    then show ?thesis
      by (simp add: build_system_prompt_def)
  qed
qed

theorem build_system_prompt_spec_witness:
  "build_system_prompt entorno_ej (alumna_ej\<lparr>u_nombre := NoAttr\<rparr>) =
     Inr (lit ''Eres un asistente educativo especializado para estudiantes. Ayuda de manera apropiada y educativa.'')"
proof -
  let ?u = "alumna_ej\<lparr>u_nombre := NoAttr\<rparr>"
  have r: "u_rol ?u = Attr (Some ALUMNO)"
    by (simp add: alumna_ej_def)
  have f: "prompt_parts entorno_ej ?u = Inl AttributeError"
    by (simp add: prompt_parts_def Let_def)
  from build_system_prompt_spec [where u = ?u and r = "Some ALUMNO" and env = entorno_ej] r f
  have "build_system_prompt entorno_ej ?u =
          Inr (lit ''Eres un asistente educativo especializado para ''
               @ (if Some ALUMNO = Some PROFESOR then lit ''profesor'' else lit ''estudiante'')
               @ lit ''s. Ayuda de manera apropiada y educativa.'')"
    by blast
  then show ?thesis by (simp add: lit_def)
qed

text \<open>
  C4. The evaluation of \<open>_build_system_prompt\<close> for a student in an environment where
  none of the five variables is set: the prompt carries the text \<open>None\<close> in place of
  the assistant's name, the persona, the limitations and the minimum age, not the
  defaults given to \<open>env_vars.get\<close>. The lemma \<open>env_default_unused\<close> shows why: every
  key is in the dictionary, so \<open>get\<close> never takes its default.
\<close>

theorem prompt_without_env_vars:
  "build_system_prompt entorno_ej alumna_ej =
   Inr (join_nl
     [lit ''Eres None, None.'',
      lit ''Tus limitaciones son: None'',
      lit ''Ahora mismo est'' @ [225] @ lit ''s hablando con:'',
      lit ''Ana Ruiz.'',
      lit ''Su rol es: alumno.'',
      lit ''Su edad es: 15 a'' @ [241] @ lit ''os.'',
      lit ''Regulaci'' @ [243] @ lit ''n de edad: None a'' @ [241] @ lit ''os.'',
      lit ''Informaci'' @ [243] @ lit ''n de la instituci'' @ [243] @ lit ''n:'',
      lit ''Nombre: No especificado'',
      lit ''Valores institucionales: No especificado'',
      lit ''Metodolog'' @ [237] @ lit ''a pedag'' @ [243] @ lit ''gica: No especificado'',
      lit ''Configuraci'' @ [243] @ lit ''n IA: Est'' @ [225] @ lit ''ndar'',
      [],
      lit ''Materias en las que est'' @ [225] @ lit '' inscrito:'',
      [],
      lit ''Archivos y contenidos disponibles del estudiante:'',
      lit ''Archivos cargados por el profesor.'',
      lit ''Archivo 1:'',
      lit ''- Tema: Fracciones'',
      lit ''- Materia: Sin materia'',
      lit ''- Notas: Sin notas adicionales'',
      lit ''- Instrucciones de ense'' @ [241] @ lit ''anza: Sin instrucciones espec'' @ [237]
        @ lit ''ficas'',
      lit ''- Contenido: Hola...''])"
  unfolding build_system_prompt_def parts_ej by simp

text \<open>
  C5. The evaluation for a student whose course has one file with the extracted text
  \<open>Hola\<close>: the entry carries the text unmodified, and the prompt line appends \<open>...\<close>
  to it. The lemmas \<open>texto_procesado_long\<close>, \<open>texto_procesado_short\<close> and
  \<open>archivo_lines_alumno_entry\<close> give the general form: the entry adds the marker only
  to a text it cut, the prompt line adds one more in every case.
\<close>

theorem short_text_marker:
  "texto_extraido archivo_ej = Some (lit ''Hola'') \<and>
   get_archivos_data entorno_ej alumna_ej = Inr [entry_alumno archivo_ej] \<and>
   map_of (entry_alumno archivo_ej) ''texto'' = Some (lit ''Hola'') \<and>
   map_sum id last (archivos_block False [entry_alumno archivo_ej]) =
     Inr (lit ''- Contenido: Hola...'') \<and>
   map_sum id last (prompt_parts entorno_ej alumna_ej) = Inr (lit ''- Contenido: Hola...'')"
proof -
  have t: "texto_procesado (Some (lit ''Hola'')) = lit ''Hola''"
    by (rule texto_procesado_short) (simp_all add: lit_def)
  have b: "map_sum id last (archivos_block False [entry_alumno archivo_ej]) =
     Inr (lit ''- Contenido: Hola...'')"
    by (simp add: archivos_block_def archivo_lines_alumno_entry)
       (simp add: archivo_ej_def t, simp add: lit_def)
  show ?thesis
    by (simp add: archivos_ej b parts_ej)
       (simp add: archivo_ej_def entry_alumno_def t)
qed

text \<open>
  C6. For a teacher, the entries and the whole prompt are the same for any two query
  results whose files differ only in extracted text, notes and teaching instructions;
  the entries are those of the files the query returned, one for each file in order,
  and every entry has exactly the keys \<open>tema\<close>, \<open>materia\<close> and \<open>nombre_archivo\<close>. For
  any other user with a course, the entries are those of the files the query for that
  course returned, one for each file in order, and every entry has the keys \<open>tema\<close>,
  \<open>notas\<close>, \<open>instrucciones\<close>, \<open>texto\<close>, \<open>materia\<close> and \<open>curso\<close>, where notes,
  instructions and text are the file's own when it has them (the text cut to 2000
  characters and marked when longer) and a placeholder when they are \<open>None\<close> or empty.
\<close>

theorem archivos_exposure:
  "(u_rol u = Attr (Some PROFESOR) \<and>
    (\<forall>i. rel_sum (=) (list_all2 mismo_salvo_contenido) (archivos_profesor env i) (q i)) \<longrightarrow>
      get_archivos_data (env\<lparr>archivos_profesor := q\<rparr>) u = get_archivos_data env u \<and>
      build_system_prompt (env\<lparr>archivos_profesor := q\<rparr>) u = build_system_prompt env u) \<and>
   (u_rol u = Attr (Some PROFESOR) \<and> u_id u = Attr i \<and>
    archivos_profesor env i = Inr archivos \<longrightarrow>
      get_archivos_data env u = Inr (map entry_profesor archivos)) \<and>
   (u_rol u = Attr r \<and> r \<noteq> Some PROFESOR \<and> u_curso_id u = Attr (Some cid) \<and> cid \<noteq> 0 \<and>
    archivos_curso env cid = Inr archivos \<longrightarrow>
      get_archivos_data env u = Inr (map entry_alumno archivos)) \<and>
   (u_rol u = Attr (Some PROFESOR) \<and> get_archivos_data env u = Inr es \<longrightarrow>
      (\<forall>e \<in> set es. map fst e = [''tema'', ''materia'', ''nombre_archivo''])) \<and>
   (u_rol u = Attr r \<and> r \<noteq> Some PROFESOR \<and> get_archivos_data env u = Inr es \<longrightarrow>
      (\<forall>e \<in> set es.
         map fst e = [''tema'', ''notas'', ''instrucciones'', ''texto'', ''materia'', ''curso''])) \<and>
   (notas_adicionales a = None \<or> notas_adicionales a = Some [] \<longrightarrow>
      map_of (entry_alumno a) ''notas'' = Some (lit ''Sin notas adicionales'')) \<and>
   (\<forall>n. notas_adicionales a = Some n \<and> n \<noteq> [] \<longrightarrow> map_of (entry_alumno a) ''notas'' = Some n) \<and>
   (instrucciones_ensenanza a = None \<or> instrucciones_ensenanza a = Some [] \<longrightarrow>
      map_of (entry_alumno a) ''instrucciones'' =
        Some (lit ''Sin instrucciones espec'' @ [237] @ lit ''ficas'')) \<and>
   (\<forall>n. instrucciones_ensenanza a = Some n \<and> n \<noteq> [] \<longrightarrow>
      map_of (entry_alumno a) ''instrucciones'' = Some n) \<and>
   (texto_extraido a = None \<or> texto_extraido a = Some [] \<longrightarrow>
      map_of (entry_alumno a) ''texto'' = Some (lit ''Texto no disponible'')) \<and>
   (\<forall>t. texto_extraido a = Some t \<and> t \<noteq> [] \<longrightarrow>
      map_of (entry_alumno a) ''texto'' =
        Some (if 2000 < length t then take 2000 t @ lit ''...'' else t))"
proof (intro conjI impI allI)
  assume h: "u_rol u = Attr (Some PROFESOR) \<and>
    (\<forall>i. rel_sum (=) (list_all2 mismo_salvo_contenido) (archivos_profesor env i) (q i))"
  then have rol: "u_rol u = Attr (Some PROFESOR)"
    and q: "\<forall>i. rel_sum (=) (list_all2 mismo_salvo_contenido) (archivos_profesor env i) (q i)"
    by simp_all
  show "get_archivos_data (env\<lparr>archivos_profesor := q\<rparr>) u = get_archivos_data env u"
    by (rule get_archivos_data_profesor_same [OF rol q])
  show "build_system_prompt (env\<lparr>archivos_profesor := q\<rparr>) u = build_system_prompt env u"
    by (simp add: build_system_prompt_def prompt_parts_profesor_same [OF rol q])
next
  assume "u_rol u = Attr (Some PROFESOR) \<and> u_id u = Attr i \<and>
    archivos_profesor env i = Inr archivos"
  then show "get_archivos_data env u = Inr (map entry_profesor archivos)"
    by (simp add: get_archivos_data_def es_profesor_def)
next
  assume "u_rol u = Attr r \<and> r \<noteq> Some PROFESOR \<and> u_curso_id u = Attr (Some cid) \<and> cid \<noteq> 0 \<and>
    archivos_curso env cid = Inr archivos"
  then show "get_archivos_data env u = Inr (map entry_alumno archivos)"
    by (simp add: get_archivos_data_def es_profesor_def)
next
  assume "u_rol u = Attr (Some PROFESOR) \<and> get_archivos_data env u = Inr es"
  then have "es = [] \<or> (\<exists>archivos. es = map entry_profesor archivos)"
    using get_archivos_data_profesor_cases by blast
  then show "\<forall>e \<in> set es. map fst e = [''tema'', ''materia'', ''nombre_archivo'']"
    by (auto simp: keys_entry_profesor)
next
  assume "u_rol u = Attr r \<and> r \<noteq> Some PROFESOR \<and> get_archivos_data env u = Inr es"
  then have "es = [] \<or> (\<exists>archivos. es = map entry_alumno archivos)"
    using get_archivos_data_alumno_cases by blast
  then show "\<forall>e \<in> set es.
         map fst e = [''tema'', ''notas'', ''instrucciones'', ''texto'', ''materia'', ''curso'']"
    by (auto simp: keys_entry_alumno)
qed (auto simp: entry_alumno_def Let_def or_default_def texto_procesado_def)

theorem archivos_exposure_witness:
  "build_system_prompt (entorno_ej\<lparr>archivos_profesor := (\<lambda>i. Inr [archivo_otro_ej])\<rparr>)
     profesor_ej = build_system_prompt entorno_ej profesor_ej \<and>
   get_archivos_data entorno_ej profesor_ej = Inr [entry_profesor archivo_ej] \<and>
   get_archivos_data entorno_ej alumna_ej = Inr [entry_alumno archivo_ej] \<and>
   map fst (entry_profesor archivo_ej) = [''tema'', ''materia'', ''nombre_archivo''] \<and>
   map fst (entry_alumno archivo_ej) =
     [''tema'', ''notas'', ''instrucciones'', ''texto'', ''materia'', ''curso''] \<and>
   map_of (entry_alumno archivo_ej) ''notas'' = Some (lit ''Sin notas adicionales'') \<and>
   map_of (entry_alumno archivo_otro_ej) ''notas'' = Some (lit ''No mostrar'') \<and>
   map_of (entry_alumno archivo_ej) ''texto'' = Some (lit ''Hola'')"
proof -
  let ?q = "\<lambda>i::int. (Inr [archivo_otro_ej] :: py_error + archivo list)"
  have rp: "u_rol profesor_ej = Attr (Some PROFESOR)"
    by (simp add: profesor_ej_def)
  have ip: "u_id profesor_ej = Attr 7 \<and> archivos_profesor entorno_ej 7 = Inr [archivo_ej]"
    by (simp add: profesor_ej_def alumna_ej_def entorno_ej_def)
  have ra: "u_rol alumna_ej = Attr (Some ALUMNO) \<and> Some ALUMNO \<noteq> Some PROFESOR"
    by (simp add: alumna_ej_def)
  have ca: "u_curso_id alumna_ej = Attr (Some 3) \<and> (3::int) \<noteq> 0 \<and>
            archivos_curso entorno_ej 3 = Inr [archivo_ej]"
    by (simp add: alumna_ej_def entorno_ej_def)
  have rel: "\<forall>i. rel_sum (=) (list_all2 mismo_salvo_contenido) (archivos_profesor entorno_ej i) (?q i)"
    by (simp add: entorno_ej_def mismo_salvo_contenido_def archivo_otro_ej_def)
  have na: "notas_adicionales archivo_ej = None \<or> notas_adicionales archivo_ej = Some []"
    by (simp add: archivo_ej_def)
  have no: "notas_adicionales archivo_otro_ej = Some (lit ''No mostrar'') \<and> lit ''No mostrar'' \<noteq> []"
    by (simp add: archivo_otro_ej_def lit_def)
  have tx: "texto_extraido archivo_ej = Some (lit ''Hola'') \<and> lit ''Hola'' \<noteq> []"
    by (simp add: archivo_ej_def lit_def)
  have ln: "\<not> 2000 < length (lit ''Hola'')"
    by (simp add: lit_def)
  from archivos_exposure [where u = profesor_ej and env = entorno_ej and i = 7
      and archivos = "[archivo_ej]" and q = ?q and r = "Some PROFESOR" and cid = 3
      and es = "map entry_profesor [archivo_ej]" and a = archivo_ej] rp ip
  have dp: "get_archivos_data entorno_ej profesor_ej = Inr (map entry_profesor [archivo_ej])"
    by blast
  from archivos_exposure [where u = alumna_ej and env = entorno_ej and r = "Some ALUMNO"
      and cid = 3 and archivos = "[archivo_ej]" and q = ?q and i = 7
      and es = "map entry_alumno [archivo_ej]" and a = archivo_ej] ra ca
  have da: "get_archivos_data entorno_ej alumna_ej = Inr (map entry_alumno [archivo_ej])"
    by blast
  from archivos_exposure [where u = profesor_ej and env = entorno_ej and q = ?q
      and es = "map entry_profesor [archivo_ej]" and i = 7 and archivos = "[archivo_ej]"
      and r = "Some PROFESOR" and cid = 3 and a = archivo_ej] rp rel dp
  have a: "build_system_prompt (entorno_ej\<lparr>archivos_profesor := ?q\<rparr>) profesor_ej =
             build_system_prompt entorno_ej profesor_ej \<and>
           (\<forall>e \<in> set (map entry_profesor [archivo_ej]).
              map fst e = [''tema'', ''materia'', ''nombre_archivo''])"
    by blast
  from archivos_exposure [where u = alumna_ej and env = entorno_ej and r = "Some ALUMNO"
      and es = "map entry_alumno [archivo_ej]" and a = archivo_ej and q = ?q and i = 7
      and cid = 3 and archivos = "[archivo_ej]"] ra da na tx
  have b: "(\<forall>e \<in> set (map entry_alumno [archivo_ej]).
              map fst e = [''tema'', ''notas'', ''instrucciones'', ''texto'', ''materia'', ''curso'']) \<and>
           map_of (entry_alumno archivo_ej) ''notas'' = Some (lit ''Sin notas adicionales'') \<and>
           map_of (entry_alumno archivo_ej) ''texto'' =
             Some (if 2000 < length (lit ''Hola'') then take 2000 (lit ''Hola'') @ lit ''...''
                   else lit ''Hola'')"
    by blast
  have "\<forall>n. notas_adicionales archivo_otro_ej = Some n \<and> n \<noteq> [] \<longrightarrow>
          map_of (entry_alumno archivo_otro_ej) ''notas'' = Some n"
    by (rule archivos_exposure [where u = alumna_ej and env = entorno_ej and r = "Some ALUMNO"
          and es = "map entry_alumno [archivo_ej]" and a = archivo_otro_ej and q = ?q and i = 7
          and cid = 3 and archivos = "[archivo_ej]", THEN conjunct2, THEN conjunct2,
          THEN conjunct2, THEN conjunct2, THEN conjunct2, THEN conjunct2, THEN conjunct1])
  with no have c: "map_of (entry_alumno archivo_otro_ej) ''notas'' = Some (lit ''No mostrar'')"
    by simp
  from a b c dp da ln show ?thesis by simp
qed

end
